theory Spec2Isabelle
  imports Complex_Main "HOL-Library.List_Lexorder"
begin

section \<open>Python values\<close>

text \<open>
  A Python \<open>str\<close> is a sequence of Unicode code points, so it is modelled as a list of
  natural numbers; comparison of two strings is the lexicographic order on code points,
  which is the order \<open>HOL-Library.List_Lexorder\<close> puts on lists. String constants of the
  sources that are pure ASCII are written with \<open>ascii\<close>; the Cyrillic and Greek ones are
  written out as code points. A Python \<open>float\<close> is modelled as a real number: rounding
  of IEEE doubles is outside this development.
\<close>

type_synonym pystr = "nat list"

definition ascii :: "string \<Rightarrow> pystr" where
  "ascii s = map of_char s"

text \<open>
  \<open>str.lower()\<close>, as CPython computes it from the Unicode Character Database (here
  version 14.0, the one of CPython 3.11). Every code point is replaced by its full
  lowercase mapping: the simple mapping, tabulated below, except that U+0130 becomes the
  two code points U+0069 U+0307. The capital sigma U+03A3 alone depends on its context:
  it becomes the final sigma U+03C2 when, skipping case-ignorable code points, a cased
  code point precedes it and none follows it, and the small sigma U+03C3 otherwise.

  An entry \<open>(lo, hi, step, lo')\<close> of \<open>lower_runs\<close> says that the code points \<open>lo\<close>,
  \<open>lo + step\<close>, ..., up to \<open>hi\<close> have the lowercase \<open>lo'\<close>, \<open>lo' + step\<close>, ...; a code
  point in no entry is its own lowercase.
\<close>

definition lower_runs :: "(nat \<times> nat \<times> nat \<times> nat) list" where
  "lower_runs =
     [(65, 90, 1, 97), (192, 214, 1, 224), (216, 222, 1, 248), (256, 302, 2, 257),
      (306, 310, 2, 307), (313, 327, 2, 314), (330, 374, 2, 331), (376, 376, 1, 255),
      (377, 381, 2, 378), (385, 385, 1, 595), (386, 388, 2, 387), (390, 390, 1, 596),
      (391, 391, 1, 392), (393, 394, 1, 598), (395, 395, 1, 396), (398, 398, 1, 477),
      (399, 399, 1, 601), (400, 400, 1, 603), (401, 401, 1, 402), (403, 403, 1, 608),
      (404, 404, 1, 611), (406, 406, 1, 617), (407, 407, 1, 616), (408, 408, 1, 409),
      (412, 412, 1, 623), (413, 413, 1, 626), (415, 415, 1, 629), (416, 420, 2, 417),
      (422, 422, 1, 640), (423, 423, 1, 424), (425, 425, 1, 643), (428, 428, 1, 429),
      (430, 430, 1, 648), (431, 431, 1, 432), (433, 434, 1, 650), (435, 437, 2, 436),
      (439, 439, 1, 658), (440, 440, 1, 441), (444, 444, 1, 445), (452, 452, 1, 454),
      (453, 453, 1, 454), (455, 455, 1, 457), (456, 456, 1, 457), (458, 458, 1, 460),
      (459, 475, 2, 460), (478, 494, 2, 479), (497, 497, 1, 499), (498, 500, 2, 499),
      (502, 502, 1, 405), (503, 503, 1, 447), (504, 542, 2, 505), (544, 544, 1, 414),
      (546, 562, 2, 547), (570, 570, 1, 11365), (571, 571, 1, 572), (573, 573, 1, 410),
      (574, 574, 1, 11366), (577, 577, 1, 578), (579, 579, 1, 384), (580, 580, 1, 649),
      (581, 581, 1, 652), (582, 590, 2, 583), (880, 882, 2, 881), (886, 886, 1, 887),
      (895, 895, 1, 1011), (902, 902, 1, 940), (904, 906, 1, 941), (908, 908, 1, 972),
      (910, 911, 1, 973), (913, 929, 1, 945), (931, 939, 1, 963), (975, 975, 1, 983),
      (984, 1006, 2, 985), (1012, 1012, 1, 952), (1015, 1015, 1, 1016),
      (1017, 1017, 1, 1010), (1018, 1018, 1, 1019), (1021, 1023, 1, 891),
      (1024, 1039, 1, 1104), (1040, 1071, 1, 1072), (1120, 1152, 2, 1121),
      (1162, 1214, 2, 1163), (1216, 1216, 1, 1231), (1217, 1229, 2, 1218),
      (1232, 1326, 2, 1233), (1329, 1366, 1, 1377), (4256, 4293, 1, 11520),
      (4295, 4295, 1, 11559), (4301, 4301, 1, 11565), (5024, 5103, 1, 43888),
      (5104, 5109, 1, 5112), (7312, 7354, 1, 4304), (7357, 7359, 1, 4349),
      (7680, 7828, 2, 7681), (7838, 7838, 1, 223), (7840, 7934, 2, 7841),
      (7944, 7951, 1, 7936), (7960, 7965, 1, 7952), (7976, 7983, 1, 7968),
      (7992, 7999, 1, 7984), (8008, 8013, 1, 8000), (8025, 8031, 2, 8017),
      (8040, 8047, 1, 8032), (8072, 8079, 1, 8064), (8088, 8095, 1, 8080),
      (8104, 8111, 1, 8096), (8120, 8121, 1, 8112), (8122, 8123, 1, 8048),
      (8124, 8124, 1, 8115), (8136, 8139, 1, 8050), (8140, 8140, 1, 8131),
      (8152, 8153, 1, 8144), (8154, 8155, 1, 8054), (8168, 8169, 1, 8160),
      (8170, 8171, 1, 8058), (8172, 8172, 1, 8165), (8184, 8185, 1, 8056),
      (8186, 8187, 1, 8060), (8188, 8188, 1, 8179), (8486, 8486, 1, 969),
      (8490, 8490, 1, 107), (8491, 8491, 1, 229), (8498, 8498, 1, 8526),
      (8544, 8559, 1, 8560), (8579, 8579, 1, 8580), (9398, 9423, 1, 9424),
      (11264, 11311, 1, 11312), (11360, 11360, 1, 11361), (11362, 11362, 1, 619),
      (11363, 11363, 1, 7549), (11364, 11364, 1, 637), (11367, 11371, 2, 11368),
      (11373, 11373, 1, 593), (11374, 11374, 1, 625), (11375, 11375, 1, 592),
      (11376, 11376, 1, 594), (11378, 11378, 1, 11379), (11381, 11381, 1, 11382),
      (11390, 11391, 1, 575), (11392, 11490, 2, 11393), (11499, 11501, 2, 11500),
      (11506, 11506, 1, 11507), (42560, 42604, 2, 42561), (42624, 42650, 2, 42625),
      (42786, 42798, 2, 42787), (42802, 42862, 2, 42803), (42873, 42875, 2, 42874),
      (42877, 42877, 1, 7545), (42878, 42886, 2, 42879), (42891, 42891, 1, 42892),
      (42893, 42893, 1, 613), (42896, 42898, 2, 42897), (42902, 42920, 2, 42903),
      (42922, 42922, 1, 614), (42923, 42923, 1, 604), (42924, 42924, 1, 609),
      (42925, 42925, 1, 620), (42926, 42926, 1, 618), (42928, 42928, 1, 670),
      (42929, 42929, 1, 647), (42930, 42930, 1, 669), (42931, 42931, 1, 43859),
      (42932, 42946, 2, 42933), (42948, 42948, 1, 42900), (42949, 42949, 1, 642),
      (42950, 42950, 1, 7566), (42951, 42953, 2, 42952), (42960, 42960, 1, 42961),
      (42966, 42968, 2, 42967), (42997, 42997, 1, 42998), (65313, 65338, 1, 65345),
      (66560, 66599, 1, 66600), (66736, 66771, 1, 66776), (66928, 66938, 1, 66967),
      (66940, 66954, 1, 66979), (66956, 66962, 1, 66995), (66964, 66965, 1, 67003),
      (68736, 68786, 1, 68800), (71840, 71871, 1, 71872), (93760, 93791, 1, 93792),
      (125184, 125217, 1, 125218)]"

text \<open>The ranges of the code points with the property \<open>Case_Ignorable\<close>.\<close>

definition case_ignorable_ranges :: "(nat \<times> nat) list" where
  "case_ignorable_ranges =
     [(39, 39), (46, 46), (58, 58), (94, 94), (96, 96), (168, 168), (173, 173), (175, 175),
      (180, 180), (183, 184), (688, 879), (884, 885), (890, 890), (900, 901), (903, 903),
      (1155, 1161), (1369, 1369), (1375, 1375), (1425, 1469), (1471, 1471), (1473, 1474),
      (1476, 1477), (1479, 1479), (1524, 1524), (1536, 1541), (1552, 1562), (1564, 1564),
      (1600, 1600), (1611, 1631), (1648, 1648), (1750, 1757), (1759, 1768), (1770, 1773),
      (1807, 1807), (1809, 1809), (1840, 1866), (1958, 1968), (2027, 2037), (2042, 2042),
      (2045, 2045), (2070, 2093), (2137, 2139), (2184, 2184), (2192, 2193), (2200, 2207),
      (2249, 2306), (2362, 2362), (2364, 2364), (2369, 2376), (2381, 2381), (2385, 2391),
      (2402, 2403), (2417, 2417), (2433, 2433), (2492, 2492), (2497, 2500), (2509, 2509),
      (2530, 2531), (2558, 2558), (2561, 2562), (2620, 2620), (2625, 2626), (2631, 2632),
      (2635, 2637), (2641, 2641), (2672, 2673), (2677, 2677), (2689, 2690), (2748, 2748),
      (2753, 2757), (2759, 2760), (2765, 2765), (2786, 2787), (2810, 2815), (2817, 2817),
      (2876, 2876), (2879, 2879), (2881, 2884), (2893, 2893), (2901, 2902), (2914, 2915),
      (2946, 2946), (3008, 3008), (3021, 3021), (3072, 3072), (3076, 3076), (3132, 3132),
      (3134, 3136), (3142, 3144), (3146, 3149), (3157, 3158), (3170, 3171), (3201, 3201),
      (3260, 3260), (3263, 3263), (3270, 3270), (3276, 3277), (3298, 3299), (3328, 3329),
      (3387, 3388), (3393, 3396), (3405, 3405), (3426, 3427), (3457, 3457), (3530, 3530),
      (3538, 3540), (3542, 3542), (3633, 3633), (3636, 3642), (3654, 3662), (3761, 3761),
      (3764, 3772), (3782, 3782), (3784, 3789), (3864, 3865), (3893, 3893), (3895, 3895),
      (3897, 3897), (3953, 3966), (3968, 3972), (3974, 3975), (3981, 3991), (3993, 4028),
      (4038, 4038), (4141, 4144), (4146, 4151), (4153, 4154), (4157, 4158), (4184, 4185),
      (4190, 4192), (4209, 4212), (4226, 4226), (4229, 4230), (4237, 4237), (4253, 4253),
      (4348, 4348), (4957, 4959), (5906, 5908), (5938, 5939), (5970, 5971), (6002, 6003),
      (6068, 6069), (6071, 6077), (6086, 6086), (6089, 6099), (6103, 6103), (6109, 6109),
      (6155, 6159), (6211, 6211), (6277, 6278), (6313, 6313), (6432, 6434), (6439, 6440),
      (6450, 6450), (6457, 6459), (6679, 6680), (6683, 6683), (6742, 6742), (6744, 6750),
      (6752, 6752), (6754, 6754), (6757, 6764), (6771, 6780), (6783, 6783), (6823, 6823),
      (6832, 6862), (6912, 6915), (6964, 6964), (6966, 6970), (6972, 6972), (6978, 6978),
      (7019, 7027), (7040, 7041), (7074, 7077), (7080, 7081), (7083, 7085), (7142, 7142),
      (7144, 7145), (7149, 7149), (7151, 7153), (7212, 7219), (7222, 7223), (7288, 7293),
      (7376, 7378), (7380, 7392), (7394, 7400), (7405, 7405), (7412, 7412), (7416, 7417),
      (7468, 7530), (7544, 7544), (7579, 7679), (8125, 8125), (8127, 8129), (8141, 8143),
      (8157, 8159), (8173, 8175), (8189, 8190), (8203, 8207), (8216, 8217), (8228, 8228),
      (8231, 8231), (8234, 8238), (8288, 8292), (8294, 8303), (8305, 8305), (8319, 8319),
      (8336, 8348), (8400, 8432), (11388, 11389), (11503, 11505), (11631, 11631),
      (11647, 11647), (11744, 11775), (11823, 11823), (12293, 12293), (12330, 12333),
      (12337, 12341), (12347, 12347), (12441, 12446), (12540, 12542), (40981, 40981),
      (42232, 42237), (42508, 42508), (42607, 42610), (42612, 42621), (42623, 42623),
      (42652, 42655), (42736, 42737), (42752, 42785), (42864, 42864), (42888, 42890),
      (42994, 42996), (43000, 43001), (43010, 43010), (43014, 43014), (43019, 43019),
      (43045, 43046), (43052, 43052), (43204, 43205), (43232, 43249), (43263, 43263),
      (43302, 43309), (43335, 43345), (43392, 43394), (43443, 43443), (43446, 43449),
      (43452, 43453), (43471, 43471), (43493, 43494), (43561, 43566), (43569, 43570),
      (43573, 43574), (43587, 43587), (43596, 43596), (43632, 43632), (43644, 43644),
      (43696, 43696), (43698, 43700), (43703, 43704), (43710, 43711), (43713, 43713),
      (43741, 43741), (43756, 43757), (43763, 43764), (43766, 43766), (43867, 43871),
      (43881, 43883), (44005, 44005), (44008, 44008), (44013, 44013), (64286, 64286),
      (64434, 64450), (65024, 65039), (65043, 65043), (65056, 65071), (65106, 65106),
      (65109, 65109), (65279, 65279), (65287, 65287), (65294, 65294), (65306, 65306),
      (65342, 65342), (65344, 65344), (65392, 65392), (65438, 65439), (65507, 65507),
      (65529, 65531), (66045, 66045), (66272, 66272), (66422, 66426), (67456, 67461),
      (67463, 67504), (67506, 67514), (68097, 68099), (68101, 68102), (68108, 68111),
      (68152, 68154), (68159, 68159), (68325, 68326), (68900, 68903), (69291, 69292),
      (69446, 69456), (69506, 69509), (69633, 69633), (69688, 69702), (69744, 69744),
      (69747, 69748), (69759, 69761), (69811, 69814), (69817, 69818), (69821, 69821),
      (69826, 69826), (69837, 69837), (69888, 69890), (69927, 69931), (69933, 69940),
      (70003, 70003), (70016, 70017), (70070, 70078), (70089, 70092), (70095, 70095),
      (70191, 70193), (70196, 70196), (70198, 70199), (70206, 70206), (70367, 70367),
      (70371, 70378), (70400, 70401), (70459, 70460), (70464, 70464), (70502, 70508),
      (70512, 70516), (70712, 70719), (70722, 70724), (70726, 70726), (70750, 70750),
      (70835, 70840), (70842, 70842), (70847, 70848), (70850, 70851), (71090, 71093),
      (71100, 71101), (71103, 71104), (71132, 71133), (71219, 71226), (71229, 71229),
      (71231, 71232), (71339, 71339), (71341, 71341), (71344, 71349), (71351, 71351),
      (71453, 71455), (71458, 71461), (71463, 71467), (71727, 71735), (71737, 71738),
      (71995, 71996), (71998, 71998), (72003, 72003), (72148, 72151), (72154, 72155),
      (72160, 72160), (72193, 72202), (72243, 72248), (72251, 72254), (72263, 72263),
      (72273, 72278), (72281, 72283), (72330, 72342), (72344, 72345), (72752, 72758),
      (72760, 72765), (72767, 72767), (72850, 72871), (72874, 72880), (72882, 72883),
      (72885, 72886), (73009, 73014), (73018, 73018), (73020, 73021), (73023, 73029),
      (73031, 73031), (73104, 73105), (73109, 73109), (73111, 73111), (73459, 73460),
      (78896, 78904), (92912, 92916), (92976, 92982), (92992, 92995), (94031, 94031),
      (94095, 94111), (94176, 94177), (94179, 94180), (110576, 110579), (110581, 110587),
      (110589, 110590), (113821, 113822), (113824, 113827), (118528, 118573),
      (118576, 118598), (119143, 119145), (119155, 119170), (119173, 119179),
      (119210, 119213), (119362, 119364), (121344, 121398), (121403, 121452),
      (121461, 121461), (121476, 121476), (121499, 121503), (121505, 121519),
      (122880, 122886), (122888, 122904), (122907, 122913), (122915, 122916),
      (122918, 122922), (123184, 123197), (123566, 123566), (123628, 123631),
      (125136, 125142), (125252, 125259), (127995, 127999), (917505, 917505),
      (917536, 917631), (917760, 917999)]"

text \<open>The ranges of the code points with the property \<open>Cased\<close>.\<close>

definition cased_ranges :: "(nat \<times> nat) list" where
  "cased_ranges =
     [(65, 90), (97, 122), (170, 170), (181, 181), (186, 186), (192, 214), (216, 246),
      (248, 442), (444, 447), (452, 659), (661, 696), (704, 705), (736, 740), (837, 837),
      (880, 883), (886, 887), (890, 893), (895, 895), (902, 902), (904, 906), (908, 908),
      (910, 929), (931, 1013), (1015, 1153), (1162, 1327), (1329, 1366), (1376, 1416),
      (4256, 4293), (4295, 4295), (4301, 4301), (4304, 4346), (4349, 4351), (5024, 5109),
      (5112, 5117), (7296, 7304), (7312, 7354), (7357, 7359), (7424, 7615), (7680, 7957),
      (7960, 7965), (7968, 8005), (8008, 8013), (8016, 8023), (8025, 8025), (8027, 8027),
      (8029, 8029), (8031, 8061), (8064, 8116), (8118, 8124), (8126, 8126), (8130, 8132),
      (8134, 8140), (8144, 8147), (8150, 8155), (8160, 8172), (8178, 8180), (8182, 8188),
      (8305, 8305), (8319, 8319), (8336, 8348), (8450, 8450), (8455, 8455), (8458, 8467),
      (8469, 8469), (8473, 8477), (8484, 8484), (8486, 8486), (8488, 8488), (8490, 8493),
      (8495, 8500), (8505, 8505), (8508, 8511), (8517, 8521), (8526, 8526), (8544, 8575),
      (8579, 8580), (9398, 9449), (11264, 11492), (11499, 11502), (11506, 11507),
      (11520, 11557), (11559, 11559), (11565, 11565), (42560, 42605), (42624, 42653),
      (42786, 42887), (42891, 42894), (42896, 42954), (42960, 42961), (42963, 42963),
      (42965, 42969), (42997, 42998), (43000, 43002), (43824, 43866), (43868, 43880),
      (43888, 43967), (64256, 64262), (64275, 64279), (65313, 65338), (65345, 65370),
      (66560, 66639), (66736, 66771), (66776, 66811), (66928, 66938), (66940, 66954),
      (66956, 66962), (66964, 66965), (66967, 66977), (66979, 66993), (66995, 67001),
      (67003, 67004), (67456, 67456), (67459, 67461), (67463, 67504), (67506, 67514),
      (68736, 68786), (68800, 68850), (71840, 71903), (93760, 93823), (119808, 119892),
      (119894, 119964), (119966, 119967), (119970, 119970), (119973, 119974),
      (119977, 119980), (119982, 119993), (119995, 119995), (119997, 120003),
      (120005, 120069), (120071, 120074), (120077, 120084), (120086, 120092),
      (120094, 120121), (120123, 120126), (120128, 120132), (120134, 120134),
      (120138, 120144), (120146, 120485), (120488, 120512), (120514, 120538),
      (120540, 120570), (120572, 120596), (120598, 120628), (120630, 120654),
      (120656, 120686), (120688, 120712), (120714, 120744), (120746, 120770),
      (120772, 120779), (122624, 122633), (122635, 122654), (125184, 125251),
      (127280, 127305), (127312, 127337), (127344, 127369)]"

fun lookup_run :: "nat \<Rightarrow> (nat \<times> nat \<times> nat \<times> nat) list \<Rightarrow> nat" where
  "lookup_run c [] = c"
| "lookup_run c ((lo, hi, step, lo') # runs) =
     (if lo \<le> c \<and> c \<le> hi \<and> (c - lo) mod step = 0 then lo' + (c - lo)
      else lookup_run c runs)"

fun in_ranges :: "nat \<Rightarrow> (nat \<times> nat) list \<Rightarrow> bool" where
  "in_ranges c [] = False"
| "in_ranges c ((lo, hi) # ranges) =
     (if lo \<le> c \<and> c \<le> hi then True else in_ranges c ranges)"

definition lower_cp :: "nat \<Rightarrow> nat" where
  "lower_cp c = lookup_run c lower_runs"

definition lower_full :: "nat \<Rightarrow> pystr" where
  "lower_full c = (if c = 304 then [105, 775] else [lower_cp c])"

definition case_ignorable :: "nat \<Rightarrow> bool" where
  "case_ignorable c = in_ranges c case_ignorable_ranges"

definition cased :: "nat \<Rightarrow> bool" where
  "cased c = in_ranges c cased_ranges"

text \<open>
  The context of a capital sigma: \<open>before\<close> is the text that precedes it, nearest code
  point first, and \<open>after\<close> the text that follows it.
\<close>

definition final_sigma :: "pystr \<Rightarrow> pystr \<Rightarrow> bool" where
  "final_sigma before after =
     (case dropWhile case_ignorable before of
        [] \<Rightarrow> False
      | c # _ \<Rightarrow>
          if cased c
          then (case dropWhile case_ignorable after of [] \<Rightarrow> True | d # _ \<Rightarrow> \<not> cased d)
          else False)"

fun lower_from :: "pystr \<Rightarrow> pystr \<Rightarrow> pystr" where
  "lower_from before [] = []"
| "lower_from before (c # cs) =
     (if c = 931 then [if final_sigma before cs then 962 else 963] else lower_full c)
     @ lower_from (c # before) cs"

definition py_lower :: "pystr \<Rightarrow> pystr" where
  "py_lower s = lower_from [] s"

text \<open>
  A reading of the table on a range, for the proofs: \<open>range_maps a b d runs\<close> says that
  no entry before the first one that meets the range \<open>a\<close>, ..., \<open>b\<close> applies to it, and
  that this entry, if there is one, maps the whole range by adding \<open>d\<close>; with no such
  entry \<open>d\<close> is zero.
\<close>

fun range_maps :: "nat \<Rightarrow> nat \<Rightarrow> nat \<Rightarrow> (nat \<times> nat \<times> nat \<times> nat) list \<Rightarrow> bool" where
  "range_maps a b d [] = (d = 0)"
| "range_maps a b d ((lo, hi, step, lo') # runs) =
     (if b < lo \<or> hi < a then range_maps a b d runs
      else lo \<le> a \<and> b \<le> hi \<and> step = 1 \<and> lo' = lo + d)"

text \<open>The code points for which \<open>str.isspace()\<close> holds.\<close>

definition is_space :: "nat \<Rightarrow> bool" where
  "is_space c =
     ((9 \<le> c \<and> c \<le> 13) \<or> (28 \<le> c \<and> c \<le> 32) \<or> c = 133 \<or> c = 160 \<or> c = 5760
      \<or> (8192 \<le> c \<and> c \<le> 8202) \<or> c = 8232 \<or> c = 8233 \<or> c = 8239 \<or> c = 8287
      \<or> c = 12288)"

text \<open>
  \<open>str.split()\<close> without arguments: the maximal runs of non-whitespace code points, in
  order; no empty word is produced. The first argument is the word read so far.
\<close>

fun split_from :: "pystr \<Rightarrow> pystr \<Rightarrow> pystr list" where
  "split_from w [] = (if w = [] then [] else [w])"
| "split_from w (c # cs) =
     (if is_space c
      then (if w = [] then split_from [] cs else w # split_from [] cs)
      else split_from (w @ [c]) cs)"

definition py_split :: "pystr \<Rightarrow> pystr list" where
  "py_split s = split_from [] s"

text \<open>\<open>str.replace(old, new)\<close> for a one-character \<open>old\<close>.\<close>

definition replace_char :: "nat \<Rightarrow> pystr \<Rightarrow> pystr \<Rightarrow> pystr" where
  "replace_char old new s = concat (map (\<lambda>c. if c = old then new else [c]) s)"

text \<open>The exceptions the modelled code can raise.\<close>

datatype py_error =
    OntologicalLimitError pystr
  | KeyError pystr
  | NameError pystr
  | AttributeError pystr

section \<open>core/axiom.py\<close>

text \<open>
  \<open>ABSOLUTISM_KEYWORDS\<close>: the seven Russian words for always, never, the only (adjective
  and adverb), absolutely, immutable, indisputably.
\<close>

definition ABSOLUTISM_KEYWORDS :: "pystr set" where
  "ABSOLUTISM_KEYWORDS =
     {[1074, 1089, 1077, 1075, 1076, 1072],
      [1085, 1080, 1082, 1086, 1075, 1076, 1072],
      [1077, 1076, 1080, 1085, 1089, 1090, 1074, 1077, 1085, 1085, 1099, 1081],
      [1077, 1076, 1080, 1085, 1089, 1090, 1074, 1077, 1085, 1085, 1086],
      [1072, 1073, 1089, 1086, 1083, 1102, 1090, 1085, 1086],
      [1085, 1077, 1087, 1088, 1077, 1083, 1086, 1078, 1085, 1099, 1081],
      [1085, 1077, 1086, 1089, 1087, 1086, 1088, 1080, 1084, 1086]}"

text \<open>The message of the exception \<open>validate_no_absolutism\<close> raises.\<close>

definition absolutism_message :: pystr where
  "absolutism_message =
     [1054, 1073, 1085, 1072, 1088, 1091, 1078, 1077, 1085, 1072, 32, 1072, 1073, 1089,
      1086, 1083, 1102, 1090, 1080, 1089, 1090, 1089, 1082, 1072, 1103, 32, 1092, 1086,
      1088, 1084, 1091, 1083, 1080, 1088, 1086, 1074, 1082, 1072, 46, 32, 76, 79, 71, 79,
      83, 45, 954, 32, 1079, 1072, 1087, 1088, 1077, 1097, 1072, 1077, 1090, 32, 1079,
      1072, 1103, 1074, 1083, 1077, 1085, 1080, 1103, 32, 1073, 1077, 1079, 32, 1087,
      1088, 1080, 1079, 1085, 1072, 1085, 1080, 1103, 32, 1075, 1088, 1072, 1085, 1080,
      1094, 1099, 32, 40, 1089, 1084, 46, 32, 937, 45, 1055, 1088, 1080, 1085, 1094,
      1080, 1087, 41, 46]"

text \<open>
  \<open>validate_no_absolutism(text)\<close>: \<open>None\<close> is an absent text. A normal return is
  \<open>Inr ()\<close>, the raised exception is \<open>Inl\<close>.
\<close>

definition validate_no_absolutism :: "pystr option \<Rightarrow> py_error + unit" where
  "validate_no_absolutism text =
     (case text of
        None \<Rightarrow> Inr ()
      | Some t \<Rightarrow>
          if t = [] then Inr ()
          else
            let words = set (py_split (py_lower t))
            in if ABSOLUTISM_KEYWORDS \<inter> words \<noteq> {}
               then Inl (OntologicalLimitError absolutism_message)
               else Inr ())"

text \<open>
  Three texts: "This is always true", "This is sometimes true", and the single word
  "forever", whose last six letters are the keyword "always".
\<close>

definition text_always :: pystr where
  "text_always =
     [1069, 1090, 1086, 32, 1074, 1089, 1077, 1075, 1076, 1072, 32, 1074, 1077, 1088, 1085, 1086]"

definition text_sometimes :: pystr where
  "text_sometimes =
     [1069, 1090, 1086, 32, 1080, 1085, 1086, 1075, 1076, 1072, 32, 1074, 1077, 1088, 1085, 1086]"

definition text_forever :: pystr where
  "text_forever = [1085, 1072, 1074, 1089, 1077, 1075, 1076, 1072]"

section \<open>Dictionaries, lists and time\<close>

text \<open>A naive \<open>datetime\<close> and its \<open>isoformat()\<close>.\<close>

record datetime =
  dt_year :: nat
  dt_month :: nat
  dt_day :: nat
  dt_hour :: nat
  dt_minute :: nat
  dt_second :: nat
  dt_microsecond :: nat

fun dec_digits :: "nat \<Rightarrow> pystr" where
  "dec_digits n = (if n < 10 then [48 + n] else dec_digits (n div 10) @ [48 + n mod 10])"

definition zfill :: "nat \<Rightarrow> pystr \<Rightarrow> pystr" where
  "zfill n s = replicate (n - length s) 48 @ s"

definition isoformat :: "datetime \<Rightarrow> pystr" where
  "isoformat d =
     zfill 4 (dec_digits (dt_year d)) @ ascii ''-'' @ zfill 2 (dec_digits (dt_month d))
     @ ascii ''-'' @ zfill 2 (dec_digits (dt_day d)) @ ascii ''T''
     @ zfill 2 (dec_digits (dt_hour d)) @ ascii '':'' @ zfill 2 (dec_digits (dt_minute d))
     @ ascii '':'' @ zfill 2 (dec_digits (dt_second d))
     @ (if dt_microsecond d = 0 then []
        else ascii ''.'' @ zfill 6 (dec_digits (dt_microsecond d)))"

text \<open>
  Sequencing of steps that may raise: the first exception ends the evaluation.
\<close>

definition raising :: "py_error + 'a \<Rightarrow> ('a \<Rightarrow> py_error + 'b) \<Rightarrow> py_error + 'b" where
  "raising m f = (case m of Inl e \<Rightarrow> Inl e | Inr v \<Rightarrow> f v)"

text \<open>
  The values the dictionaries of the program hold. A \<open>dict\<close> is an association list in
  insertion order with string keys.
\<close>

datatype pyval =
    VNone
  | VBool bool
  | VInt int
  | VFloat real
  | VStr pystr
  | VTime datetime
  | VList "pyval list"
  | VDict "(pystr \<times> pyval) list"

type_synonym pydict = "(pystr \<times> pyval) list"

definition dict_get :: "pydict \<Rightarrow> pystr \<Rightarrow> pyval \<Rightarrow> pyval" where
  "dict_get d k dflt = (case map_of d k of None \<Rightarrow> dflt | Some v \<Rightarrow> v)"

definition dict_getitem :: "pydict \<Rightarrow> pystr \<Rightarrow> py_error + pyval" where
  "dict_getitem d k = (case map_of d k of None \<Rightarrow> Inl (KeyError k) | Some v \<Rightarrow> Inr v)"

definition dict_setitem :: "pydict \<Rightarrow> pystr \<Rightarrow> pyval \<Rightarrow> pydict" where
  "dict_setitem d k v =
     (if k \<in> fst ` set d then map (\<lambda>(k', v'). if k' = k then (k', v) else (k', v')) d
      else d @ [(k, v)])"

definition str_list :: "pystr list \<Rightarrow> pyval" where
  "str_list xs = VList (map VStr xs)"

text \<open>\<open>a or b\<close> for an optional string \<open>a\<close>: \<open>None\<close> and the empty string are falsy.\<close>

definition py_or :: "pystr option \<Rightarrow> pystr \<Rightarrow> pystr" where
  "py_or a b = (case a of None \<Rightarrow> b | Some s \<Rightarrow> if s = [] then b else s)"

text \<open>
  The two sources of values from outside the program: \<open>uuid.uuid4()\<close> and the wall
  clock. Each is a sequence, with the number of values drawn so far.
\<close>

record world =
  uuid_source :: "nat \<Rightarrow> pystr"
  uuids_drawn :: nat
  clock :: "nat \<Rightarrow> datetime"
  clock_reads :: nat

definition uuid4_str :: "world \<Rightarrow> pystr \<times> world" where
  "uuid4_str w = (uuid_source w (uuids_drawn w), w\<lparr>uuids_drawn := uuids_drawn w + 1\<rparr>)"

definition datetime_now :: "world \<Rightarrow> datetime \<times> world" where
  "datetime_now w = (clock w (clock_reads w), w\<lparr>clock_reads := clock_reads w + 1\<rparr>)"

text \<open>
  Formatting with \<open>:.2f\<close>: the value rounded to two decimals, ties to the even digit,
  with a minus sign for a negative value.
\<close>

definition round_half_even :: "real \<Rightarrow> nat" where
  "round_half_even x =
     (let f = \<lfloor>x\<rfloor>; d = x - of_int f
      in nat (if d < 1 / 2 then f else if 1 / 2 < d then f + 1
              else if even f then f else f + 1))"

definition format_2f :: "real \<Rightarrow> pystr" where
  "format_2f x =
     (let q = round_half_even (\<bar>x\<bar> * 100)
      in (if x < 0 then ascii ''-'' else []) @ dec_digits (q div 100) @ ascii ''.''
         @ zfill 2 (dec_digits (q mod 100)))"

section \<open>core/relation.py\<close>

text \<open>The six gesture symbols: capital Alpha, Lambda, Sigma, Omega, Phi and nabla.\<close>

definition sym_Alpha :: pystr where "sym_Alpha = [913]"
definition sym_Lambda :: pystr where "sym_Lambda = [923]"
definition sym_Sigma :: pystr where "sym_Sigma = [931]"
definition sym_Omega :: pystr where "sym_Omega = [937]"
definition sym_Nabla :: pystr where "sym_Nabla = [8711]"
definition sym_Phi :: pystr where "sym_Phi = [934]"

text \<open>
  The fields of the dataclass, in the order of their declaration; \<open>rel_id\<close> and
  \<open>rel_type\<close> are its \<open>id\<close> and \<open>type\<close>. A history entry is a dictionary.
\<close>

record OntologicalRelation =
  rel_id :: pystr
  source :: pystr
  target :: pystr
  rel_type :: pystr
  context_id :: "pystr option"
  meaning :: pystr
  intensity :: real
  certainty :: real
  coherence_contribution :: real
  created :: datetime
  last_activated :: "datetime option"
  lifespan :: "real option"
  activation_count :: int
  phi_meta :: "pystr list"
  blind_spots :: "pystr list"
  habeas_weight_id :: pystr
  fair_care_metadata :: pydict
  is_active :: bool
  tension_level :: real
  transformation_history :: "pydict list"

text \<open>The table of \<open>_infer_meaning\<close>, one meaning for each gesture symbol.\<close>

definition meanings :: "(pystr \<times> pystr) list" where
  "meanings =
    [(sym_Alpha,
     [1082, 1086, 1083, 1083, 1072, 1087, 1089, 32, 1087, 1086, 1090, 1077, 1085, 1094,
      1080, 1080, 32, 1074, 32, 1072, 1082, 1090, 1091, 1072, 1083, 1100, 1085, 1086,
      1089, 1090, 1100]),
     (sym_Lambda,
     [1091, 1089, 1090, 1072, 1085, 1086, 1074, 1083, 1077, 1085, 1080, 1077, 32, 1086,
      1085, 1090, 1086, 1083, 1086, 1075, 1080, 1095, 1077, 1089, 1082, 1086, 1081, 32,
      1089, 1074, 1103, 1079, 1080]),
     (sym_Sigma,
     [1089, 1080, 1085, 1090, 1077, 1079, 32, 1085, 1086, 1074, 1086, 1075, 1086, 32,
      1094, 1077, 1083, 1086, 1075, 1086, 32, 1080, 1079, 32, 1095, 1072, 1089, 1090,
      1077, 1081]),
     (sym_Omega,
     [1074, 1086, 1079, 1074, 1088, 1072, 1090, 32, 1082, 32, 1080, 1089, 1090, 1086,
      1095, 1085, 1080, 1082, 1091, 32, 1080, 32, 1080, 1079, 1074, 1083, 1077, 1095,
      1077, 1085, 1080, 1077, 32, 1080, 1085, 1074, 1072, 1088, 1080, 1072, 1085, 1090,
      1072]),
     (sym_Nabla,
     [1086, 1073, 1086, 1075, 1072, 1097, 1077, 1085, 1080, 1077, 32, 1082, 1086, 1085,
      1090, 1077, 1082, 1089, 1090, 1072, 32, 1080, 1085, 1074, 1072, 1088, 1080, 1072,
      1085, 1090, 1086, 1084]),
     (sym_Phi,
     [1076, 1080, 1072, 1083, 1086, 1075, 32, 1089, 32, 1069, 1092, 1086, 1089, 1086,
      1084, 44, 32, 1087, 1088, 1080, 1079, 1085, 1072, 1085, 1080, 1077, 32, 1085,
      1077, 1087, 1086, 1079, 1085, 1072, 1074, 1072, 1077, 1084, 1086, 1075, 1086])]"

text \<open>"ontological relation of type ", the prefix of the meaning of any other type.\<close>

definition meaning_of_type_prefix :: pystr where
  "meaning_of_type_prefix =
     [1086, 1085, 1090, 1086, 1083, 1086, 1075, 1080, 1095, 1077, 1089, 1082, 1072,
      1103, 32, 1089, 1074, 1103, 1079, 1100, 32, 1090, 1080, 1087, 1072, 32]"

definition infer_meaning :: "OntologicalRelation \<Rightarrow> pystr" where
  "infer_meaning self =
     (case map_of meanings (rel_type self) of
        Some m \<Rightarrow> m
      | None \<Rightarrow> meaning_of_type_prefix @ rel_type self)"

definition init_habeas_weight :: "OntologicalRelation \<Rightarrow> world \<Rightarrow> OntologicalRelation \<times> world" where
  "init_habeas_weight self w =
     (let (u, w1) = uuid4_str w in (self\<lparr>habeas_weight_id := u\<rparr>, w1))"

text \<open>The protocol tag, "Lambda-Protocol 6.0" in Russian.\<close>

definition protocol_tag :: pystr where
  "protocol_tag = [923, 45, 1055, 1088, 1086, 1090, 1086, 1082, 1086, 1083, 32, 54, 46, 48]"

definition logos_system :: pystr where
  "logos_system = [76, 79, 71, 79, 83, 45, 954, 32, 83, 121, 115, 116, 101, 109]"

definition init_fair_care_metadata :: "OntologicalRelation \<Rightarrow> OntologicalRelation" where
  "init_fair_care_metadata self =
     self\<lparr>fair_care_metadata :=
       [(ascii ''relation_id'', VStr (rel_id self)),
        (ascii ''type'', VStr (ascii ''OntologicalRelation'')),
        (ascii ''license'', VStr (ascii ''CC BY-NC-SA 4.0'')),
        (ascii ''created'', VStr (isoformat (created self))),
        (ascii ''source'', VStr (source self)),
        (ascii ''target'', VStr (target self)),
        (ascii ''operator'', VStr logos_system),
        (ascii ''community_standards'', str_list [ascii ''FAIR'', ascii ''CARE'', protocol_tag]),
        (ascii ''access_protocol'', VStr (ascii ''open'')),
        (ascii ''habeas_weight_id'', VStr (habeas_weight_id self))]\<rparr>"

definition post_init :: "OntologicalRelation \<Rightarrow> world \<Rightarrow> OntologicalRelation \<times> world" where
  "post_init self w =
     (let self1 = (if meaning self = [] then self\<lparr>meaning := infer_meaning self\<rparr> else self);
          (self2, w1) = init_habeas_weight self1 w
      in (init_fair_care_metadata self2, w1))"

text \<open>
  The constructor as \<open>transform\<close> calls it: the generated \<open>__init__\<close> for the keyword
  arguments \<open>source\<close>, \<open>target\<close>, \<open>type\<close>, \<open>meaning\<close>, \<open>certainty\<close>, \<open>phi_meta\<close>,
  \<open>blind_spots\<close> and \<open>context_id\<close>, every other field taking its declared default (the
  default factories run in field order: \<open>id\<close>, \<open>created\<close>, \<open>habeas_weight_id\<close>), followed
  by \<open>__post_init__\<close>.
\<close>

definition relation_init ::
  "pystr \<Rightarrow> pystr \<Rightarrow> pystr \<Rightarrow> pystr \<Rightarrow> real \<Rightarrow> pystr list \<Rightarrow> pystr list \<Rightarrow> pystr option
     \<Rightarrow> world \<Rightarrow> OntologicalRelation \<times> world" where
  "relation_init src tgt ty mng cert phi spots cid w =
     (let (u1, w1) = uuid4_str w;
          (now, w2) = datetime_now w1;
          (u2, w3) = uuid4_str w2
      in post_init
           \<lparr>rel_id = take 8 u1, source = src, target = tgt, rel_type = ty, context_id = cid,
            meaning = mng, intensity = 1.0, certainty = cert, coherence_contribution = 0.0,
            created = now, last_activated = None, lifespan = None, activation_count = 0,
            phi_meta = phi, blind_spots = spots, habeas_weight_id = u2,
            fair_care_metadata = [], is_active = True, tension_level = 0.0,
            transformation_history = []\<rparr> w3)"

text \<open>
  The argument of \<open>activate\<close>: nothing, an object that is falsy, or a truthy object with
  or without a \<open>name\<close> attribute.
\<close>

datatype context_arg = NoContext | FalsyObject | TruthyObject "pystr option"

definition context_snapshot :: "context_arg \<Rightarrow> pystr" where
  "context_snapshot c =
     (case c of
        TruthyObject (Some n) \<Rightarrow> n
      | TruthyObject None \<Rightarrow> ascii ''unknown''
      | _ \<Rightarrow> ascii ''none'')"

text \<open>"The relation is inactive" and the notice of the crisis of a relation.\<close>

definition inactive_message :: pystr where
  "inactive_message =
     [1057, 1074, 1103, 1079, 1100, 32, 1085, 1077, 1072, 1082, 1090, 1080, 1074, 1085,
      1072]"

definition omega_notice :: pystr where
  "omega_notice =
     [1072, 1082, 1090, 1080, 1074, 1080, 1088, 1086, 1074, 1072, 1085, 32, 937, 45,
      1072, 1074, 1090, 1086, 1084, 1072, 1090, 58, 32, 1082, 1088, 1080, 1079, 1080,
      1089, 32, 1089, 1074, 1103, 1079, 1080]"

text \<open>
  \<open>_update_certainty\<close>. \<open>recent\<close> is the slice \<open>[-3:]\<close>; \<open>stability\<close> divides the sum of
  a one for each entry of \<open>recent\<close> by its length, which is not zero behind the guard.
\<close>

definition recent :: "pydict list \<Rightarrow> pydict list" where
  "recent h = drop (length h - 3) h"

definition stability :: "pydict list \<Rightarrow> real" where
  "stability h = real (sum_list (map (\<lambda>_. 1) (recent h))) / real (length (recent h))"

definition update_certainty :: "OntologicalRelation \<Rightarrow> OntologicalRelation" where
  "update_certainty self =
     (if transformation_history self = [] then self
      else self\<lparr>certainty :=
             min 1.0 (certainty self * 0.8 + stability (transformation_history self) * 0.2)\<rparr>)"

text \<open>
  \<open>activate\<close> returns the result dictionary, the relation after the call and the world.
  The history entry holds the same dictionary object that is returned, so the key
  \<open>omega_trigger\<close>, added after the entry was appended, is in the entry too.
\<close>

definition activate ::
  "OntologicalRelation \<Rightarrow> context_arg \<Rightarrow> world \<Rightarrow> pydict \<times> OntologicalRelation \<times> world" where
  "activate self context w =
     (if \<not> is_active self
      then ([(ascii ''error'', VStr inactive_message), (ascii ''relation_id'', VStr (rel_id self))],
            self, w)
      else
        let (now, w1) = datetime_now w;
            self1 = self\<lparr>is_active := True, last_activated := Some now,
                         activation_count := activation_count self + 1\<rparr>;
            result =
              [(ascii ''relation_id'', VStr (rel_id self1)),
               (ascii ''type'', VStr (rel_type self1)),
               (ascii ''source'', VStr (source self1)),
               (ascii ''target'', VStr (target self1)),
               (ascii ''meaning'', VStr (meaning self1)),
               (ascii ''timestamp'', VStr (isoformat now)),
               (ascii ''certainty'', VFloat (certainty self1)),
               (ascii ''tension_level'', VFloat (tension_level self1)),
               (ascii ''phi_context'', str_list (phi_meta self1)),
               (ascii ''blind_spots'', str_list (blind_spots self1))];
            entry = (\<lambda>res.
              [(ascii ''timestamp'', VTime now),
               (ascii ''activation_result'', VDict res),
               (ascii ''context_snapshot'', VStr (context_snapshot context))]);
            self2 = update_certainty
                      (self1\<lparr>transformation_history :=
                                transformation_history self1 @ [entry result]\<rparr>);
            result' =
              (if certainty self2 < 0.3 \<and> 0.7 < tension_level self2
               then dict_setitem result (ascii ''omega_trigger'') (VStr omega_notice)
               else result)
        in (result',
            self2\<lparr>transformation_history := transformation_history self1 @ [entry result']\<rparr>,
            w1))"

text \<open>\<open>__call__\<close>.\<close>

definition call :: "OntologicalRelation \<Rightarrow> context_arg \<Rightarrow> world \<Rightarrow> pydict \<times> OntologicalRelation \<times> world" where
  "call self context w = activate self context w"

text \<open>
  The strings of \<open>transform\<close>: "Transformed from ", the tag "transformation", the marker
  "loss of original context" and the reason "ontological evolution".
\<close>

definition transformed_from :: pystr where
  "transformed_from =
     [1058, 1088, 1072, 1085, 1089, 1092, 1086, 1088, 1084, 1080, 1088, 1086, 1074,
      1072, 1085, 1085, 1072, 1103, 32, 1080, 1079, 32]"

definition transformation_tag :: pystr where
  "transformation_tag =
     [1090, 1088, 1072, 1085, 1089, 1092, 1086, 1088, 1084, 1072, 1094, 1080, 1103]"

definition loss_of_context :: pystr where
  "loss_of_context =
     [1091, 1090, 1088, 1072, 1090, 1072, 32, 1080, 1089, 1093, 1086, 1076, 1085, 1086,
      1075, 1086, 32, 1082, 1086, 1085, 1090, 1077, 1082, 1089, 1090, 1072]"

definition evolution_reason :: pystr where
  "evolution_reason =
     [1086, 1085, 1090, 1086, 1083, 1086, 1075, 1080, 1095, 1077, 1089, 1082, 1072,
      1103, 32, 1101, 1074, 1086, 1083, 1102, 1094, 1080, 1103]"

text \<open>
  \<open>transform\<close> returns the successor, the relation after the call and the world.
\<close>

definition transform ::
  "OntologicalRelation \<Rightarrow> pystr option \<Rightarrow> pystr option \<Rightarrow> world
     \<Rightarrow> OntologicalRelation \<times> OntologicalRelation \<times> world" where
  "transform self new_type new_target w =
     (let (transformed, w1) =
            relation_init (source self) (py_or new_target (target self))
              (py_or new_type (rel_type self))
              (transformed_from @ rel_id self @ ascii '': '' @ meaning self)
              (certainty self * 0.8)
              (phi_meta self @ [transformation_tag])
              (blind_spots self @ [loss_of_context])
              (context_id self) w;
          (now, w2) = datetime_now w1;
          self1 = self\<lparr>transformation_history := transformation_history self @
                    [[(ascii ''timestamp'', VTime now),
                      (ascii ''transformation'',
                         VDict [(ascii ''from'', VStr (rel_type self)),
                                (ascii ''to'', VStr (rel_type transformed)),
                                (ascii ''reason'', VStr evolution_reason)])]]\<rparr>
      in (transformed, self1\<lparr>is_active := False\<rparr>, w2))"

text \<open>The keyword prefixes \<open>:meaning "\<close>, \<open>:certainty \<close> and \<open>:type "\<close>, in Russian.\<close>

definition kw_meaning :: pystr where
  "kw_meaning = [58, 1079, 1085, 1072, 1095, 1077, 1085, 1080, 1077, 32, 34]"

definition kw_certainty :: pystr where
  "kw_certainty = [58, 1091, 1074, 1077, 1088, 1077, 1085, 1085, 1086, 1089, 1090, 1100, 32]"

definition kw_type :: pystr where
  "kw_type = [58, 1090, 1080, 1087, 32, 34]"

definition to_logos_expression :: "OntologicalRelation \<Rightarrow> pystr list" where
  "to_logos_expression self =
     (if rel_type self = sym_Lambda then [rel_type self, source self, target self]
      else if rel_type self \<in> set [sym_Sigma, sym_Omega, sym_Nabla, sym_Phi]
      then [rel_type self, source self, target self,
            kw_meaning @ meaning self @ ascii ''\"'',
            kw_certainty @ format_2f (certainty self)]
      else [sym_Alpha, source self, kw_type @ rel_type self @ ascii ''\"''])"

section \<open>core/event.py\<close>

text \<open>
  The fields of the dataclass; \<open>ev_id\<close>, \<open>ev_phi_meta\<close> and \<open>ev_habeas_weight_id\<close> are
  its \<open>id\<close>, \<open>phi_meta\<close> and \<open>habeas_weight_id\<close>. The result of an event is absent or
  any value.
\<close>

record OntologicalEvent =
  ev_id :: pystr
  timestamp :: datetime
  gesture :: pystr
  event_version :: pystr
  operands :: "pystr list"
  result :: "pyval option"
  entities_affected :: "pystr list"
  blind_spots_involved :: "pystr list"
  coherence_before :: real
  coherence_after :: real
  tensions_resolved :: int
  tensions_created :: int
  uncertainty_level :: real
  ev_phi_meta :: "pystr list"
  omega_trigger :: bool
  ev_habeas_weight_id :: pystr
  creator_intent :: "pystr option"
  fair_care_meta :: pydict
  provenance :: pydict

definition significance_score :: "OntologicalEvent \<Rightarrow> real" where
  "significance_score self =
     (let coherence_change = \<bar>coherence_after self - coherence_before self\<bar>;
          meta_weight = (if ev_phi_meta self \<noteq> [] then 0.2 else 0.0);
          tension_net = (of_int (tensions_resolved self) * 0.2)
                        - (of_int (tensions_created self) * 0.1);
          blind_spot_weight = (if blind_spots_involved self \<noteq> [] then 0.1 else 0.0);
          score = min 1.0 (coherence_change * 0.4 + meta_weight + tension_net
                           + blind_spot_weight)
      in max 0.0 score)"

text \<open>
  The score as the specification words it: the clamp to the unit interval of the
  weighted sum.
\<close>

definition clamp01 :: "real \<Rightarrow> real" where
  "clamp01 x = (if x < 0 then 0 else if 1 < x then 1 else x)"

definition significance_spec :: "OntologicalEvent \<Rightarrow> real" where
  "significance_spec e =
     clamp01 (0.4 * \<bar>coherence_after e - coherence_before e\<bar>
              + (if ev_phi_meta e = [] then 0 else 0.2)
              + 0.2 * of_int (tensions_resolved e) - 0.1 * of_int (tensions_created e)
              + (if blind_spots_involved e = [] then 0 else 0.1))"

text \<open>\<open>to_semantic_db_record\<close>; the builtin \<open>str\<close> is a parameter.\<close>

definition to_semantic_db_record :: "(pyval \<Rightarrow> pystr) \<Rightarrow> OntologicalEvent \<Rightarrow> pydict" where
  "to_semantic_db_record py_str self =
     [(ascii ''id'', VStr (ev_id self)),
      (ascii ''timestamp'', VStr (isoformat (timestamp self))),
      (ascii ''gesture'', VStr (gesture self)),
      (ascii ''operands'', str_list (operands self)),
      (ascii ''result'', (case result self of None \<Rightarrow> VNone | Some v \<Rightarrow> VStr (py_str v))),
      (ascii ''entities_affected'', str_list (entities_affected self)),
      (ascii ''blind_spots_involved'', str_list (blind_spots_involved self)),
      (ascii ''coherence'',
         VDict [(ascii ''before'', VFloat (coherence_before self)),
                (ascii ''after'', VFloat (coherence_after self)),
                (ascii ''delta'', VFloat (coherence_after self - coherence_before self))]),
      (ascii ''tensions'',
         VDict [(ascii ''resolved'', VInt (tensions_resolved self)),
                (ascii ''created'', VInt (tensions_created self))]),
      (ascii ''phi_meta'', str_list (ev_phi_meta self)),
      (ascii ''omega_trigger'', VBool (omega_trigger self)),
      (ascii ''significance_score'', VFloat (significance_score self)),
      (ascii ''metadata'', VDict (fair_care_meta self)),
      (ascii ''provenance'', VDict (provenance self))]"

section \<open>The evaluation context\<close>

text \<open>
  Modelled from the spec: \<open>EnhancedActiveContext\<close> of \<open>core/context.py\<close>, which is not
  among the sources. The record has the attributes the encoder and the serializer read:
  the name, the operator, the nodes of the graph with their attribute maps, its edges
  with the relation attached to each (if any), the map of blind spots, the tension log,
  the rights registry, the event history and the log of dialogues.
\<close>

record EnhancedActiveContext =
  ctx_name :: pystr
  operator_id :: "pystr option"
  graph_nodes :: "(pystr \<times> pydict) list"
  graph_edges :: "(pystr \<times> pystr \<times> OntologicalRelation option) list"
  ctx_blind_spots :: "(pystr \<times> pystr) list"
  tension_log :: "pyval list"
  habeas_weights :: pydict
  event_history :: "OntologicalEvent list"
  phi_dialogues :: "pyval list"

section \<open>semantic\_db/fair\_encoder.py\<close>

text \<open>
  The four baseline keywords (the second is "ontological-cycle" in Russian) and the
  prefixes "relation-" and "blind-spot-".
\<close>

definition kw_logos :: pystr where
  "kw_logos = [76, 79, 71, 79, 83, 45, 954]"

definition kw_cycle :: pystr where
  "kw_cycle =
     [1086, 1085, 1090, 1086, 1083, 1086, 1075, 1080, 1095, 1077, 1089, 1082, 1080,
      1081, 45, 1094, 1080, 1082, 1083]"

definition baseline_keywords :: "pystr set" where
  "baseline_keywords = {kw_logos, kw_cycle, ascii ''lambda-universe'', ascii ''semanticdb''}"

definition relation_prefix :: pystr where
  "relation_prefix = [1089, 1074, 1103, 1079, 1100, 45]"

definition blind_spot_prefix :: pystr where
  "blind_spot_prefix =
     [1089, 1083, 1077, 1087, 1086, 1077, 45, 1087, 1103, 1090, 1085, 1086, 45]"

text \<open>The three loops of \<open>_extract_keywords\<close>, each adding to the set.\<close>

definition add_entities :: "pystr list \<Rightarrow> pystr set \<Rightarrow> pystr set" where
  "add_entities nodes keywords =
     fold (\<lambda>node kw. insert (replace_char 32 (ascii ''-'') (py_lower node)) kw) nodes keywords"

definition add_relation_types ::
  "(pystr \<times> pystr \<times> OntologicalRelation option) list \<Rightarrow> pystr set \<Rightarrow> pystr set" where
  "add_relation_types edges keywords =
     fold (\<lambda>(_, _, attrs) kw.
             case attrs of
               None \<Rightarrow> kw
             | Some rel \<Rightarrow> insert (relation_prefix @ py_lower (rel_type rel)) kw)
          edges keywords"

definition add_blind_spots :: "pystr list \<Rightarrow> pystr set \<Rightarrow> pystr set" where
  "add_blind_spots spots keywords =
     fold (\<lambda>spot kw. insert (blind_spot_prefix @ spot) kw) spots keywords"

definition keyword_set :: "EnhancedActiveContext \<Rightarrow> pystr set" where
  "keyword_set context =
     add_blind_spots (map fst (ctx_blind_spots context))
       (add_relation_types (graph_edges context)
          (add_entities (map fst (graph_nodes context)) baseline_keywords))"

text \<open>The keywords the first loop adds: one for each entity.\<close>

definition entity_keywords :: "EnhancedActiveContext \<Rightarrow> pystr set" where
  "entity_keywords context = add_entities (map fst (graph_nodes context)) {}"

definition extract_keywords :: "EnhancedActiveContext \<Rightarrow> pystr list" where
  "extract_keywords context = take 20 (sorted_list_of_set (keyword_set context))"

section \<open>semantic\_db/serializer.py\<close>

text \<open>
  \<open>get_default_fair_care_metadata\<close> of the axiom registry: the copy of the template with
  the key \<open>created\<close>, which keeps its place, set to the time of the call. The two long
  strings are "Lambda-Universum Appendices I-XXVI" and the statement of collective benefit.
\<close>

definition derived_from :: pystr where
  "derived_from =
     [923, 45, 1059, 1085, 1080, 1074, 1077, 1088, 1089, 1091, 1084, 32, 1055, 1088,
      1080, 1083, 1086, 1078, 1077, 1085, 1080, 1103, 32, 73, 45, 88, 88, 86, 73]"

definition benefit_statement :: pystr where
  "benefit_statement =
     [1069, 1090, 1086, 1090, 32, 1082, 1086, 1085, 1090, 1077, 1082, 1089, 1090, 32,
      1089, 1087, 1086, 1089, 1086, 1073, 1089, 1090, 1074, 1091, 1077, 1090, 32, 1082,
      1086, 1083, 1083, 1077, 1082, 1090, 1080, 1074, 1085, 1086, 1084, 1091, 32, 1087,
      1086, 1085, 1080, 1084, 1072, 1085, 1080, 1102, 32, 1086, 1085, 1090, 1086, 1083,
      1086, 1075, 1080, 1095, 1077, 1089, 1082, 1080, 1093, 32, 1090, 1088, 1072, 1085,
      1089, 1092, 1086, 1088, 1084, 1072, 1094, 1080, 1081, 32, 1080, 32, 1089, 1080,
      1084, 1073, 1080, 1086, 1090, 1080, 1095, 1077, 1089, 1082, 1086, 1084, 1091, 32,
      1089, 1086, 45, 1084, 1099, 1096, 1083, 1077, 1085, 1080, 1102, 46]"

definition get_default_fair_care_metadata :: "world \<Rightarrow> pydict \<times> world" where
  "get_default_fair_care_metadata w =
     (let (now, w1) = datetime_now w
      in ([(ascii ''creator'', VStr logos_system),
           (ascii ''created'', VStr (isoformat now @ ascii ''Z'')),
           (ascii ''license'', VStr (ascii ''CC BY-NC-SA 4.0'')),
           (ascii ''format_standard'', VStr (ascii ''JSON-LD'')),
           (ascii ''vocabulary'', VStr (ascii ''schema.org'')),
           (ascii ''access_protocol'', VStr (ascii ''REST API + GraphQL'')),
           (ascii ''authentication'', VStr (ascii ''open'')),
           (ascii ''community_standards'',
              str_list [ascii ''FAIR'', ascii ''CARE'', protocol_tag]),
           (ascii ''provenance'',
              VDict [(ascii ''generated_by'', VStr (ascii ''LOGOS-'' @ [954] @ ascii '' v1.0'')),
                     (ascii ''derived_from'', str_list [derived_from])]),
           (ascii ''collective_benefit_statement'', VStr benefit_statement)], w1))"

definition serialize_entities :: "EnhancedActiveContext \<Rightarrow> pyval list" where
  "serialize_entities context =
     map (\<lambda>(node, attrs). VDict [(ascii ''name'', VStr node), (ascii ''attributes'', VDict attrs)])
         (graph_nodes context)"

definition serialize_relations :: "EnhancedActiveContext \<Rightarrow> pyval list" where
  "serialize_relations context =
     concat (map (\<lambda>(src, tgt, attrs).
                    case attrs of
                      None \<Rightarrow> []
                    | Some relation \<Rightarrow>
                        [VDict [(ascii ''source'', VStr src),
                                (ascii ''target'', VStr tgt),
                                (ascii ''relation'',
                                   VDict [(ascii ''id'', VStr (rel_id relation)),
                                          (ascii ''type'', VStr (rel_type relation)),
                                          (ascii ''meaning'', VStr (meaning relation)),
                                          (ascii ''certainty'', VFloat (certainty relation)),
                                          (ascii ''tension_level'', VFloat (tension_level relation)),
                                          (ascii ''habeas_weight_id'',
                                             VStr (habeas_weight_id relation)),
                                          (ascii ''fair_care_metadata'',
                                             VDict (fair_care_metadata relation))])]])
                 (graph_edges context))"

text \<open>
  What a name can be bound to inside \<open>to_yaml\<close>: a value, or an object (a module, a class,
  the serializer itself) that is not a value of the report. The names in scope are the
  two parameters and the names the module binds at top level by its imports and its one
  class; Python's builtins have no name \<open>cycle_of_data\<close>. Loading a name that is not
  bound raises \<open>NameError\<close>.
\<close>

datatype pyobj = Value pyval | Object

definition module_globals :: "pystr list" where
  "module_globals =
     map ascii [''json'', ''yaml'', ''datetime'', ''Dict'', ''Any'', ''List'', ''Optional'', ''Path'',
                ''EnhancedActiveContext'', ''OntologicalAxioms'', ''SemanticDBSerializer'']"

definition to_yaml_scope :: "pydict \<Rightarrow> (pystr \<times> pyobj) list" where
  "to_yaml_scope cycle_data =
     [(ascii ''self'', Object), (ascii ''cycle_data'', Value (VDict cycle_data))]
     @ map (\<lambda>n. (n, Object)) module_globals"

definition load_name :: "(pystr \<times> pyobj) list \<Rightarrow> pystr \<Rightarrow> py_error + pyobj" where
  "load_name scope n = (case map_of scope n of None \<Rightarrow> Inl (NameError n) | Some obj \<Rightarrow> Inr obj)"

text \<open>\<open>obj.get(key, default)\<close>: defined for a dictionary.\<close>

definition obj_get :: "pyobj \<Rightarrow> pystr \<Rightarrow> pyval \<Rightarrow> py_error + pyval" where
  "obj_get obj k dflt =
     (case obj of
        Value (VDict d) \<Rightarrow> Inr (dict_get d k dflt)
      | _ \<Rightarrow> Inl (AttributeError (ascii ''get'')))"

text \<open>
  The section \<open>cycle_summary\<close> of the report: its seven entries are evaluated in the
  order they are written, and the first exception ends the evaluation.
\<close>

definition cycle_summary :: "pydict \<Rightarrow> py_error + pydict" where
  "cycle_summary cycle_data =
     raising (dict_getitem cycle_data (ascii ''cycle_id'')) (\<lambda>cycle_id.
     raising (dict_getitem cycle_data (ascii ''timestamp'')) (\<lambda>ts.
     raising (dict_getitem cycle_data (ascii ''expressions_evaluated'')) (\<lambda>n.
     raising (load_name (to_yaml_scope cycle_data) (ascii ''cycle_of_data'')) (\<lambda>obj.
     raising (obj_get obj (ascii ''successful_evaluations'') (VInt 0)) (\<lambda>ok.
     raising (dict_getitem cycle_data (ascii ''final_coherence'')) (\<lambda>coh.
     raising (dict_getitem cycle_data (ascii ''phi_dialogues_count'')) (\<lambda>phi.
       Inr [(ascii ''cycle_id'', cycle_id),
            (ascii ''timestamp'', ts),
            (ascii ''expressions_evaluated'', n),
            (ascii ''successful_evaluations'', ok),
            (ascii ''final_coherence'', coh),
            (ascii ''phi_dialogues_count'', phi),
            (ascii ''nigc_scores'',
               dict_get cycle_data (ascii ''nigc_scores'') (VList []))])))))))"

text \<open>
  \<open>to_yaml\<close>. The dump of the YAML library and the builtin \<open>str\<close> are parameters; the
  serializer holds nothing but its context. The result is the text of the report or the
  exception raised.
\<close>

definition to_yaml ::
  "(pyval \<Rightarrow> pystr) \<Rightarrow> (pyval \<Rightarrow> pystr) \<Rightarrow> EnhancedActiveContext \<Rightarrow> pydict \<Rightarrow> world
     \<Rightarrow> py_error + pystr" where
  "to_yaml yaml_dump py_str context cycle_data w =
     (let (now, w1) = datetime_now w;
          (fair_care, w2) = get_default_fair_care_metadata w1;
          metadata =
            [(ascii ''type'', VStr (ascii ''OntologicalCycle'')),
             (ascii ''version'', VStr (ascii ''1.0'')),
             (ascii ''protocol'', VStr protocol_tag),
             (ascii ''created_at'', VStr (isoformat now)),
             (ascii ''creator'', VStr (py_or (operator_id context) (ascii ''anonymous_operator''))),
             (ascii ''license'', VStr (ascii ''CC BY-NC-SA 4.0'')),
             (ascii ''fair_care'', VDict fair_care)]
      in case cycle_summary cycle_data of
           Inl e \<Rightarrow> Inl e
         | Inr summary \<Rightarrow>
             Inr (yaml_dump (VDict
               [(ascii ''metadata'', VDict metadata),
                (ascii ''cycle_summary'', VDict summary),
                (ascii ''ontological_context'',
                   VDict [(ascii ''entities'', VList (serialize_entities context)),
                          (ascii ''relations'', VList (serialize_relations context)),
                          (ascii ''blind_spots'',
                             VDict (map (\<lambda>(k, d). (k, VStr d)) (ctx_blind_spots context))),
                          (ascii ''tensions'', VList (tension_log context)),
                          (ascii ''habeas_weights'', VDict (habeas_weights context))]),
                (ascii ''event_history'',
                   VList (map (\<lambda>event. VDict (to_semantic_db_record py_str event))
                              (event_history context))),
                (ascii ''phi_dialogues'', VList (phi_dialogues context))])))"

section \<open>Sample inputs\<close>

definition sample_world :: world where
  "sample_world =
     \<lparr>uuid_source = (\<lambda>n. dec_digits (n mod 10) @ ascii ''f2b8c1e-5a7d-4e0b-9c6f-12ab34cd56ef''),
      uuids_drawn = 0,
      clock = (\<lambda>n. \<lparr>dt_year = 2026, dt_month = 1, dt_day = 15, dt_hour = 12, dt_minute = 30,
                      dt_second = n mod 60, dt_microsecond = 0\<rparr>),
      clock_reads = 0\<rparr>"

text \<open>
  Relations as the constructor makes them, of the types Lambda and Sigma and of a type
  \<open>X\<close> that is none of the six gestures.
\<close>

definition sample_relation :: OntologicalRelation where
  "sample_relation =
     fst (relation_init (ascii ''logos'') (ascii ''ethos'') sym_Lambda (ascii ''bond'')
            0.7 [] [] None sample_world)"

definition sample_sigma :: OntologicalRelation where
  "sample_sigma =
     fst (relation_init (ascii ''logos'') (ascii ''ethos'') sym_Sigma (ascii ''whole'')
            0.7 [] [] None sample_world)"

definition sample_other :: OntologicalRelation where
  "sample_other =
     fst (relation_init (ascii ''logos'') (ascii ''ethos'') (ascii ''X'') (ascii ''act'')
            0.7 [] [] None sample_world)"

definition sample_inactive :: OntologicalRelation where
  "sample_inactive = sample_relation\<lparr>is_active := False\<rparr>"

text \<open>A context with two entities, one relation and one blind spot.\<close>

definition small_context :: EnhancedActiveContext where
  "small_context =
     \<lparr>ctx_name = ascii ''genesis'', operator_id = Some (ascii ''operator''),
      graph_nodes = [(ascii ''Logos'', []), (ascii ''Living Ethos'', [])],
      graph_edges = [(ascii ''Logos'', ascii ''Living Ethos'', Some sample_sigma)],
      ctx_blind_spots = [(ascii ''chaos'', ascii ''unresolvable'')],
      tension_log = [], habeas_weights = [], event_history = [], phi_dialogues = []\<rparr>"

text \<open>
  A context with the seventeen entities \<open>a\<close>, ..., \<open>q\<close>, no relation, and the four
  mandatory blind spots.
\<close>

definition context17 :: EnhancedActiveContext where
  "context17 =
     \<lparr>ctx_name = ascii ''genesis'', operator_id = Some (ascii ''operator''),
      graph_nodes = map (\<lambda>c. ([c], [])) [97 ..< 114],
      graph_edges = [],
      ctx_blind_spots =
        [(ascii ''chaos'', ascii ''unresolvable''),
         (ascii ''self_reference'', ascii ''the system cannot know itself''),
         (ascii ''qualia'', ascii ''experience of another mind''),
         (ascii ''phi_boundary'', ascii ''boundary of minds'')],
      tension_log = [], habeas_weights = [], event_history = [], phi_dialogues = []\<rparr>"

text \<open>A cycle summary with all of its seven keys.\<close>

definition sample_cycle_data :: pydict where
  "sample_cycle_data =
     [(ascii ''cycle_id'', VStr (ascii ''cycle-1'')),
      (ascii ''timestamp'', VStr (ascii ''2026-01-15T12:30:00'')),
      (ascii ''expressions_evaluated'', VInt 5),
      (ascii ''successful_evaluations'', VInt 5),
      (ascii ''final_coherence'', VFloat 0.8),
      (ascii ''phi_dialogues_count'', VInt 1),
      (ascii ''nigc_scores'', VList [VFloat 0.5])]"

text \<open>
  The twenty-five keywords of \<open>context17\<close> in alphabetical order: the first twenty are
  the keyword of the system, the entities and two more baseline keywords; "ontological-cycle"
  and the four blind spots follow.
\<close>

definition keywords17 :: "pystr list" where
  "keywords17 =
     [[76, 79, 71, 79, 83, 45, 954],
      [97],
      [98],
      [99],
      [100],
      [101],
      [102],
      [103],
      [104],
      [105],
      [106],
      [107],
      [108],
      [108, 97, 109, 98, 100, 97, 45, 117, 110, 105, 118, 101, 114, 115, 101],
      [109],
      [110],
      [111],
      [112],
      [113],
      [115, 101, 109, 97, 110, 116, 105, 99, 100, 98],
      [1086, 1085, 1090, 1086, 1083, 1086, 1075, 1080, 1095, 1077, 1089, 1082, 1080,
       1081, 45, 1094, 1080, 1082, 1083],
      [1089, 1083, 1077, 1087, 1086, 1077, 45, 1087, 1103, 1090, 1085, 1086, 45, 99,
       104, 97, 111, 115],
      [1089, 1083, 1077, 1087, 1086, 1077, 45, 1087, 1103, 1090, 1085, 1086, 45, 112,
       104, 105, 95, 98, 111, 117, 110, 100, 97, 114, 121],
      [1089, 1083, 1077, 1087, 1086, 1077, 45, 1087, 1103, 1090, 1085, 1086, 45, 113,
       117, 97, 108, 105, 97],
      [1089, 1083, 1077, 1087, 1086, 1077, 45, 1087, 1103, 1090, 1085, 1086, 45, 115,
       101, 108, 102, 95, 114, 101, 102, 101, 114, 101, 110, 99, 101]]"

text \<open>
  A context with two entities, a relation of each of the six gesture types and ten
  blind spots, and its twenty-two keywords in alphabetical order.
\<close>

definition relation_of_type :: "pystr \<Rightarrow> OntologicalRelation" where
  "relation_of_type ty =
     fst (relation_init (ascii ''Logos'') (ascii ''Living Ethos'') ty (ascii ''bond'')
            0.7 [] [] None sample_world)"

definition context22 :: EnhancedActiveContext where
  "context22 =
     \<lparr>ctx_name = ascii ''genesis'', operator_id = Some (ascii ''operator''),
      graph_nodes = [(ascii ''Logos'', []), (ascii ''Living Ethos'', [])],
      graph_edges =
        map (\<lambda>ty. (ascii ''Logos'', ascii ''Living Ethos'', Some (relation_of_type ty)))
          [sym_Alpha, sym_Lambda, sym_Sigma, sym_Omega, sym_Nabla, sym_Phi],
      ctx_blind_spots =
        map (\<lambda>k. (ascii k, ascii ''unknowable''))
          [''chaos'', ''self_reference'', ''qualia'', ''phi_boundary'', ''time'', ''origin'',
           ''death'', ''other'', ''infinity'', ''silence''],
      tension_log = [], habeas_weights = [], event_history = [], phi_dialogues = []\<rparr>"

definition keywords22 :: "pystr list" where
  "keywords22 =
     [[76, 79, 71, 79, 83, 45, 954],
      [108, 97, 109, 98, 100, 97, 45, 117, 110, 105, 118, 101, 114, 115, 101],
      [108, 105, 118, 105, 110, 103, 45, 101, 116, 104, 111, 115],
      [108, 111, 103, 111, 115],
      [115, 101, 109, 97, 110, 116, 105, 99, 100, 98],
      [1086, 1085, 1090, 1086, 1083, 1086, 1075, 1080, 1095, 1077, 1089, 1082, 1080,
       1081, 45, 1094, 1080, 1082, 1083],
      [1089, 1074, 1103, 1079, 1100, 45, 945],
      [1089, 1074, 1103, 1079, 1100, 45, 955],
      [1089, 1074, 1103, 1079, 1100, 45, 963],
      [1089, 1074, 1103, 1079, 1100, 45, 966],
      [1089, 1074, 1103, 1079, 1100, 45, 969],
      [1089, 1074, 1103, 1079, 1100, 45, 8711],
      [1089, 1083, 1077, 1087, 1086, 1077, 45, 1087, 1103, 1090, 1085, 1086, 45, 99,
       104, 97, 111, 115],
      [1089, 1083, 1077, 1087, 1086, 1077, 45, 1087, 1103, 1090, 1085, 1086, 45, 100,
       101, 97, 116, 104],
      [1089, 1083, 1077, 1087, 1086, 1077, 45, 1087, 1103, 1090, 1085, 1086, 45, 105,
       110, 102, 105, 110, 105, 116, 121],
      [1089, 1083, 1077, 1087, 1086, 1077, 45, 1087, 1103, 1090, 1085, 1086, 45, 111,
       114, 105, 103, 105, 110],
      [1089, 1083, 1077, 1087, 1086, 1077, 45, 1087, 1103, 1090, 1085, 1086, 45, 111,
       116, 104, 101, 114],
      [1089, 1083, 1077, 1087, 1086, 1077, 45, 1087, 1103, 1090, 1085, 1086, 45, 112,
       104, 105, 95, 98, 111, 117, 110, 100, 97, 114, 121],
      [1089, 1083, 1077, 1087, 1086, 1077, 45, 1087, 1103, 1090, 1085, 1086, 45, 113,
       117, 97, 108, 105, 97],
      [1089, 1083, 1077, 1087, 1086, 1077, 45, 1087, 1103, 1090, 1085, 1086, 45, 115,
       101, 108, 102, 95, 114, 101, 102, 101, 114, 101, 110, 99, 101],
      [1089, 1083, 1077, 1087, 1086, 1077, 45, 1087, 1103, 1090, 1085, 1086, 45, 115,
       105, 108, 101, 110, 99, 101],
      [1089, 1083, 1077, 1087, 1086, 1077, 45, 1087, 1103, 1090, 1085, 1086, 45, 116,
       105, 109, 101]]"

text \<open>An event with the field values of the worked example of the score.\<close>

definition example_event :: "OntologicalEvent \<Rightarrow> OntologicalEvent" where
  "example_event e =
     e\<lparr>coherence_before := 0.2, coherence_after := 0.6, ev_phi_meta := [ascii ''x''],
       tensions_resolved := 1, tensions_created := 0,
       blind_spots_involved := [ascii ''chaos'']\<rparr>"


section \<open>Properties of the model of \<open>str.lower\<close>\<close>

lemma lookup_run_range:
  "range_maps a b d runs \<Longrightarrow> a \<le> c \<Longrightarrow> c \<le> b \<Longrightarrow> lookup_run c runs = c + d"
  by (induction a b d runs rule: range_maps.induct) (auto split: if_splits)

text \<open>
  The table on the ranges of code points the sample texts are made of: ASCII, the Greek
  capitals, the basic Cyrillic letters and the nabla.
\<close>

lemmas table_eval = lower_runs_def range_maps.simps rel_simps simp_thms if_True if_False

lemma lower_runs_ranges:
  "range_maps 0 64 0 lower_runs"
  "range_maps 65 90 32 lower_runs"
  "range_maps 91 127 0 lower_runs"
  "range_maps 913 929 32 lower_runs"
  "range_maps 931 939 32 lower_runs"
  "range_maps 1040 1071 32 lower_runs"
  "range_maps 1072 1103 0 lower_runs"
  "range_maps 8711 8711 0 lower_runs"
  by (simp_all only: table_eval)

lemma lower_cp_ascii: "c \<le> 127 \<Longrightarrow> lower_cp c = (if 65 \<le> c \<and> c \<le> 90 then c + 32 else c)"
proof -
  assume c: "c \<le> 127"
  consider "c \<le> 64" | "65 \<le> c \<and> c \<le> 90" | "91 \<le> c" by linarith
  then show ?thesis
  proof cases
    case 1
    then show ?thesis
      using lookup_run_range[OF lower_runs_ranges(1), of c] by (simp add: lower_cp_def)
  next
    case 2
    then show ?thesis
      using lookup_run_range[OF lower_runs_ranges(2), of c] by (simp add: lower_cp_def)
  next
    case 3
    then show ?thesis
      using c lookup_run_range[OF lower_runs_ranges(3), of c] by (simp add: lower_cp_def)
  qed
qed

lemma lower_cp_greek:
  "913 \<le> c \<Longrightarrow> c \<le> 939 \<Longrightarrow> c \<noteq> 930 \<Longrightarrow> lower_cp c = c + 32"
  using lookup_run_range[OF lower_runs_ranges(4), of c]
    lookup_run_range[OF lower_runs_ranges(5), of c]
  by (cases "c \<le> 929") (simp_all add: lower_cp_def)

lemma lower_cp_cyrillic:
  "1040 \<le> c \<Longrightarrow> c \<le> 1103 \<Longrightarrow> lower_cp c = (if c \<le> 1071 then c + 32 else c)"
  using lookup_run_range[OF lower_runs_ranges(6), of c]
    lookup_run_range[OF lower_runs_ranges(7), of c]
  by (cases "c \<le> 1071") (simp_all add: lower_cp_def)

lemma lower_cp_nabla: "lower_cp 8711 = 8711"
  using lookup_run_range[OF lower_runs_ranges(8), of 8711] by (simp add: lower_cp_def)

lemmas lower_eval =
  py_lower_def lower_full_def final_sigma_def lower_cp_ascii lower_cp_greek lower_cp_cyrillic
  lower_cp_nabla

section \<open>Properties of core/axiom.py\<close>

lemma split_always:
  "py_split (py_lower text_always) =
     [[1101, 1090, 1086], [1074, 1089, 1077, 1075, 1076, 1072], [1074, 1077, 1088, 1085, 1086]]"
  by (simp add: py_split_def text_always_def lower_eval is_space_def)

lemma split_sometimes:
  "py_split (py_lower text_sometimes) =
     [[1101, 1090, 1086], [1080, 1085, 1086, 1075, 1076, 1072], [1074, 1077, 1088, 1085, 1086]]"
  by (simp add: py_split_def text_sometimes_def lower_eval is_space_def)

lemma split_forever: "py_split (py_lower text_forever) = [text_forever]"
  by (simp add: py_split_def text_forever_def lower_eval is_space_def)

lemma forever_no_keyword: "text_forever \<notin> ABSOLUTISM_KEYWORDS"
  by (simp add: text_forever_def ABSOLUTISM_KEYWORDS_def)

text \<open>
  C8: \<open>validate_no_absolutism\<close> returns normally on an absent and on an empty text. On
  a non-empty text it raises \<open>OntologicalLimitError\<close> exactly when one of the words of
  the lower-cased text, split at whitespace, is an absolutism keyword, and returns
  normally otherwise; so a keyword that is only a part of a longer word is not flagged.
  It raises on "This is always true" and returns on "This is sometimes true".
\<close>

theorem validate_no_absolutism_spec:
  "validate_no_absolutism None = Inr () \<and>
   validate_no_absolutism (Some []) = Inr () \<and>
   (t \<noteq> [] \<longrightarrow>
      (validate_no_absolutism (Some t) = Inl (OntologicalLimitError absolutism_message)) =
      (\<exists>w \<in> set (py_split (py_lower t)). w \<in> ABSOLUTISM_KEYWORDS)) \<and>
   (validate_no_absolutism (Some t) = Inl (OntologicalLimitError absolutism_message) \<or>
    validate_no_absolutism (Some t) = Inr ()) \<and>
   validate_no_absolutism (Some text_always) = Inl (OntologicalLimitError absolutism_message) \<and>
   validate_no_absolutism (Some text_sometimes) = Inr ()"
proof -
  have a: "validate_no_absolutism (Some text_always) = Inl (OntologicalLimitError absolutism_message)"
    by (simp add: validate_no_absolutism_def split_always ABSOLUTISM_KEYWORDS_def)
       (simp add: text_always_def)
  have s: "validate_no_absolutism (Some text_sometimes) = Inr ()"
    by (simp add: validate_no_absolutism_def split_sometimes ABSOLUTISM_KEYWORDS_def)
  have i: "t \<noteq> [] \<longrightarrow>
      (validate_no_absolutism (Some t) = Inl (OntologicalLimitError absolutism_message)) =
      (\<exists>w \<in> set (py_split (py_lower t)). w \<in> ABSOLUTISM_KEYWORDS)"
    by (auto simp: validate_no_absolutism_def Let_def)
  have d: "validate_no_absolutism (Some t) = Inl (OntologicalLimitError absolutism_message) \<or>
    validate_no_absolutism (Some t) = Inr ()"
    by (simp add: validate_no_absolutism_def Let_def)
  have n: "validate_no_absolutism None = Inr ()" "validate_no_absolutism (Some []) = Inr ()"
    by (simp_all add: validate_no_absolutism_def)
  from a s i d n show ?thesis by blast
qed

text \<open>
  The word "forever" ends with the keyword "always" and is no keyword: the check
  returns normally on it. The text "This is always true" has the keyword as its second
  word: the check raises.
\<close>

theorem validate_no_absolutism_spec_witness:
  "text_forever \<noteq> [] \<and>
   \<not> (\<exists>w \<in> set (py_split (py_lower text_forever)). w \<in> ABSOLUTISM_KEYWORDS) \<and>
   validate_no_absolutism (Some text_forever) = Inr () \<and>
   text_always \<noteq> [] \<and>
   (\<exists>w \<in> set (py_split (py_lower text_always)). w \<in> ABSOLUTISM_KEYWORDS) \<and>
   validate_no_absolutism (Some text_always) = Inl (OntologicalLimitError absolutism_message)"
proof -
  have f: "text_forever \<noteq> []" by (simp add: text_forever_def)
  have nf: "\<not> (\<exists>w \<in> set (py_split (py_lower text_forever)). w \<in> ABSOLUTISM_KEYWORDS)"
    by (simp add: split_forever forever_no_keyword)
  have a: "text_always \<noteq> []" by (simp add: text_always_def)
  show ?thesis
    using validate_no_absolutism_spec[of text_forever] validate_no_absolutism_spec[of text_always]
      f nf a
    by auto
qed

section \<open>Properties of core/event.py\<close>

text \<open>
  C3: for every event, \<open>significance_score\<close> is the clamp to the unit interval of
  0.4 times the absolute change of coherence, plus 0.2 if there is metadata of the
  dialogue, plus 0.2 for each tension resolved, minus 0.1 for each tension created, plus
  0.1 if a blind spot is involved; for the values of the worked example (coherence from
  0.2 to 0.6, one tag, one tension resolved, none created, one blind spot) it is 0.66.
\<close>

theorem significance_score_formula:
  "significance_score e = significance_spec e \<and>
   significance_score (example_event e) = 0.66"
proof -
  have "significance_score e = significance_spec e"
    by (simp add: significance_score_def significance_spec_def clamp01_def Let_def
          min_def max_def algebra_simps)
  moreover have "significance_score (example_event e) = 0.66"
    by (simp add: significance_score_def example_event_def Let_def ascii_def)
  ultimately show ?thesis by simp
qed

section \<open>Properties of core/relation.py\<close>

lemma recent_nonempty: "h \<noteq> [] \<Longrightarrow> recent h \<noteq> []"
  by (cases h) (simp_all add: recent_def)

lemma stability_one: "h \<noteq> [] \<Longrightarrow> stability h = 1"
  using recent_nonempty[of h] by (simp add: stability_def sum_list_triv)

lemma activate_active:
  assumes "is_active r"
  shows "certainty (fst (snd (activate r ctx w))) = min 1 (certainty r * 0.8 + 0.2)"
    and "length (transformation_history (fst (snd (activate r ctx w)))) =
           Suc (length (transformation_history r))"
  using assms
  by (simp_all add: activate_def Let_def datetime_now_def update_certainty_def stability_one
        split: prod.splits)

lemma relation_init_fields:
  "mng \<noteq> [] \<Longrightarrow>
   fst (relation_init src tgt ty mng cert phi spots cid w) =
     init_fair_care_metadata
      \<lparr>rel_id = take 8 (uuid_source w (uuids_drawn w)), source = src, target = tgt,
       rel_type = ty, context_id = cid, meaning = mng,
       intensity = 1, certainty = cert, coherence_contribution = 0,
       created = clock w (clock_reads w), last_activated = None, lifespan = None,
       activation_count = 0, phi_meta = phi, blind_spots = spots,
       habeas_weight_id = uuid_source w (Suc (Suc (uuids_drawn w))),
       fair_care_metadata = [], is_active = True, tension_level = 0,
       transformation_history = []\<rparr>"
  by (simp add: relation_init_def post_init_def init_habeas_weight_def uuid4_str_def
        datetime_now_def Let_def split: prod.splits)

lemma transform_successor:
  "fst (transform r nt ntg w) =
     init_fair_care_metadata
      \<lparr>rel_id = take 8 (uuid_source w (uuids_drawn w)), source = source r,
       target = py_or ntg (target r), rel_type = py_or nt (rel_type r),
       context_id = context_id r,
       meaning = transformed_from @ rel_id r @ ascii '': '' @ meaning r,
       intensity = 1, certainty = certainty r * 0.8, coherence_contribution = 0,
       created = clock w (clock_reads w), last_activated = None, lifespan = None,
       activation_count = 0, phi_meta = phi_meta r @ [transformation_tag],
       blind_spots = blind_spots r @ [loss_of_context],
       habeas_weight_id = uuid_source w (Suc (Suc (uuids_drawn w))),
       fair_care_metadata = [], is_active = True, tension_level = 0,
       transformation_history = []\<rparr>"
proof -
  have ne: "transformed_from @ rel_id r @ ascii '': '' @ meaning r \<noteq> []"
    by (simp add: transformed_from_def)
  have "fst (transform r nt ntg w) =
     fst (relation_init (source r) (py_or ntg (target r)) (py_or nt (rel_type r))
            (transformed_from @ rel_id r @ ascii '': '' @ meaning r) (certainty r * 0.8)
            (phi_meta r @ [transformation_tag]) (blind_spots r @ [loss_of_context])
            (context_id r) w)"
    by (simp add: transform_def Let_def split: prod.splits)
  then show ?thesis
    by (simp only: relation_init_fields[OF ne])
qed

lemma transform_original:
  "fst (snd (transform r nt ntg w)) =
     r\<lparr>transformation_history := transformation_history r @
          [[(ascii ''timestamp'', VTime (clock w (Suc (clock_reads w)))),
            (ascii ''transformation'',
               VDict [(ascii ''from'', VStr (rel_type r)),
                      (ascii ''to'', VStr (py_or nt (rel_type r))),
                      (ascii ''reason'', VStr evolution_reason)])]],
       is_active := False\<rparr>"
  by (simp add: transform_def relation_init_def post_init_def init_habeas_weight_def
        uuid4_str_def datetime_now_def init_fair_care_metadata_def Let_def split: prod.splits)

lemma symbols_distinct:
  "sym_Lambda \<notin> set [sym_Sigma, sym_Omega, sym_Nabla, sym_Phi]"
  by (simp add: sym_Lambda_def sym_Sigma_def sym_Omega_def sym_Nabla_def sym_Phi_def)

lemma sample_relation_fields:
  "is_active sample_relation" "certainty sample_relation = 0.7"
  "blind_spots sample_relation = []" "rel_type sample_relation = sym_Lambda"
  "rel_id sample_relation = ascii ''0f2b8c1e''"
  "source sample_relation = ascii ''logos''" "target sample_relation = ascii ''ethos''"
  by (simp_all add: sample_relation_def relation_init_fields ascii_def
        init_fair_care_metadata_def sample_world_def)

lemma sample_sigma_fields:
  "certainty sample_sigma = 0.7" "meaning sample_sigma = ascii ''whole''"
  "rel_type sample_sigma = sym_Sigma"
  "source sample_sigma = ascii ''logos''" "target sample_sigma = ascii ''ethos''"
  by (simp_all add: sample_sigma_def relation_init_fields ascii_def
        init_fair_care_metadata_def sample_world_def)

lemma sample_other_fields:
  "rel_type sample_other = ascii ''X''"
  "source sample_other = ascii ''logos''" "target sample_other = ascii ''ethos''"
  by (simp_all add: sample_other_def relation_init_fields ascii_def
        init_fair_care_metadata_def sample_world_def)

lemma format_example: "format_2f 0.7 = ascii ''0.70''"
  by (simp add: format_2f_def round_half_even_def Let_def zfill_def ascii_def)

text \<open>
  C5: for every active relation with certainty \<open>c\<close>, after \<open>activate\<close> the certainty is
  the minimum of 1 and \<open>0.8 * c + 0.2\<close>; the stability ratio of the history on which
  the certainty is recomputed is exactly 1; and for \<open>c\<close> between 0 and 1 the new
  certainty is at least \<open>c\<close> and at most 1.
\<close>

theorem activate_certainty:
  "is_active r \<Longrightarrow>
     certainty (fst (snd (activate r ctx w))) = min 1.0 (0.8 * certainty r + 0.2) \<and>
     stability (transformation_history (fst (snd (activate r ctx w)))) = 1.0 \<and>
     (0 \<le> certainty r \<and> certainty r \<le> 1 \<longrightarrow>
        certainty r \<le> certainty (fst (snd (activate r ctx w))) \<and>
        certainty (fst (snd (activate r ctx w))) \<le> 1)"
proof -
  assume a: "is_active r"
  let ?r' = "fst (snd (activate r ctx w))"
  have c: "certainty ?r' = min 1 (0.8 * certainty r + 0.2)"
    using activate_active(1)[OF a, of ctx w] by (simp add: mult.commute)
  have "transformation_history ?r' \<noteq> []"
    using activate_active(2)[OF a, of ctx w] by auto
  then have s: "stability (transformation_history ?r') = 1"
    by (rule stability_one)
  have "certainty r \<le> certainty ?r' \<and> certainty ?r' \<le> 1"
    if "0 \<le> certainty r \<and> certainty r \<le> 1"
    using that c by (simp add: min_def)
  with c s show ?thesis by simp
qed

text \<open>The sample relation is active with certainty 0.7; activation raises it to 0.76.\<close>

theorem activate_certainty_witness:
  "is_active sample_relation \<and> 0 \<le> certainty sample_relation \<and>
   certainty sample_relation \<le> 1 \<and>
   certainty (fst (snd (activate sample_relation NoContext sample_world))) = 0.76 \<and>
   stability (transformation_history
     (fst (snd (activate sample_relation NoContext sample_world)))) = 1 \<and>
   certainty sample_relation
     \<le> certainty (fst (snd (activate sample_relation NoContext sample_world))) \<and>
   certainty (fst (snd (activate sample_relation NoContext sample_world))) \<le> 1"
  using activate_certainty[OF sample_relation_fields(1), of NoContext sample_world]
  by (simp add: sample_relation_fields)

text \<open>
  C7: on a relation that is not active, \<open>activate\<close> returns the error result with the
  identity of the relation and leaves the relation as it was, with its activation
  counter, certainty, history and time of last activation; no value is drawn from the
  clock either.
\<close>

theorem activate_inactive:
  "\<not> is_active r \<Longrightarrow>
     activate r ctx w =
       ([(ascii ''error'', VStr inactive_message), (ascii ''relation_id'', VStr (rel_id r))],
        r, w)"
  by (simp add: activate_def)

text \<open>The sample relation, deactivated, is returned unchanged with the error result.\<close>

theorem activate_inactive_witness:
  "\<not> is_active sample_inactive \<and>
   activate sample_inactive NoContext sample_world =
     ([(ascii ''error'', VStr inactive_message),
       (ascii ''relation_id'', VStr (ascii ''0f2b8c1e''))],
      sample_inactive, sample_world)"
proof -
  have h: "\<not> is_active sample_inactive" by (simp add: sample_inactive_def)
  have i: "rel_id sample_inactive = ascii ''0f2b8c1e''"
    by (simp add: sample_inactive_def sample_relation_fields)
  show ?thesis using activate_inactive[OF h, of NoContext sample_world] h i by simp
qed

text \<open>
  C4: for every relation whose blind spots do not have the marker "loss of original
  context", \<open>transform\<close> leaves the relation inactive and returns a successor whose
  certainty is 0.8 times the certainty of the relation and whose blind spots have the
  marker.
\<close>

theorem transform_deactivates:
  "loss_of_context \<notin> set (blind_spots r) \<Longrightarrow>
     \<not> is_active (fst (snd (transform r nt ntg w))) \<and>
     certainty (fst (transform r nt ntg w)) = 0.8 * certainty r \<and>
     loss_of_context \<in> set (blind_spots (fst (transform r nt ntg w)))"
  by (simp add: transform_original transform_successor init_fair_care_metadata_def)

text \<open>
  The sample relation has no blind spot; its successor has certainty 0.56 and the marker.
\<close>

theorem transform_deactivates_witness:
  "loss_of_context \<notin> set (blind_spots sample_relation) \<and>
   \<not> is_active (fst (snd (transform sample_relation None None sample_world))) \<and>
   certainty (fst (transform sample_relation None None sample_world)) = 0.56 \<and>
   loss_of_context
     \<in> set (blind_spots (fst (transform sample_relation None None sample_world)))"
proof -
  have h: "loss_of_context \<notin> set (blind_spots sample_relation)"
    by (simp add: sample_relation_fields)
  show ?thesis
    using transform_deactivates[OF h, of None None sample_world] h
    by (simp add: sample_relation_fields)
qed

text \<open>
  C6: \<open>to_logos_expression\<close> returns the type, source and target for the type Lambda;
  the type, source, target, the meaning keyword with the quoted meaning and the
  certainty keyword with the certainty to two decimals for the types Sigma, Omega,
  nabla and Phi; and for every other type the three elements Alpha (whatever the
  type), the source, and the type keyword with the quoted type.
\<close>

theorem to_logos_expression_cases:
  "(rel_type r = sym_Lambda \<longrightarrow> to_logos_expression r = [rel_type r, source r, target r]) \<and>
   (rel_type r \<in> {sym_Sigma, sym_Omega, sym_Nabla, sym_Phi} \<longrightarrow>
      to_logos_expression r =
        [rel_type r, source r, target r, kw_meaning @ meaning r @ ascii ''\"'',
         kw_certainty @ format_2f (certainty r)]) \<and>
   (rel_type r \<notin> {sym_Lambda, sym_Sigma, sym_Omega, sym_Nabla, sym_Phi} \<longrightarrow>
      to_logos_expression r = [sym_Alpha, source r, kw_type @ rel_type r @ ascii ''\"''])"
  using symbols_distinct by (auto simp: to_logos_expression_def)

text \<open>The three forms, on the sample relations of the types Lambda, Sigma and \<open>X\<close>.\<close>

theorem to_logos_expression_cases_witness:
  "rel_type sample_relation = sym_Lambda \<and>
   to_logos_expression sample_relation = [sym_Lambda, ascii ''logos'', ascii ''ethos''] \<and>
   rel_type sample_sigma \<in> {sym_Sigma, sym_Omega, sym_Nabla, sym_Phi} \<and>
   to_logos_expression sample_sigma =
     [sym_Sigma, ascii ''logos'', ascii ''ethos'', kw_meaning @ ascii ''whole\"'',
      kw_certainty @ ascii ''0.70''] \<and>
   rel_type sample_other \<notin> {sym_Lambda, sym_Sigma, sym_Omega, sym_Nabla, sym_Phi} \<and>
   to_logos_expression sample_other = [sym_Alpha, ascii ''logos'', kw_type @ ascii ''X\"'']"
proof -
  have o: "rel_type sample_other \<notin> {sym_Lambda, sym_Sigma, sym_Omega, sym_Nabla, sym_Phi}"
    by (simp add: sample_other_fields ascii_def sym_Lambda_def sym_Sigma_def sym_Omega_def
          sym_Nabla_def sym_Phi_def)
  show ?thesis
    using to_logos_expression_cases[of sample_relation]
      to_logos_expression_cases[of sample_sigma]
      to_logos_expression_cases[of sample_other] o
    by (simp add: sample_relation_fields sample_sigma_fields sample_other_fields
          format_example)
       (simp add: ascii_def)
qed

text \<open>
  C9: calling a relation directly returns the same result and makes the same changes of
  state as \<open>activate\<close> with the same argument, for every relation, argument and world.
\<close>

theorem call_is_activate: "call r ctx w = activate r ctx w"
  by (simp add: call_def)

text \<open>
  C10: the successor that \<open>transform\<close> returns has the source of the relation, the
  target and the type (overridden by a non-empty argument), the prefixed meaning, 0.8
  times the certainty, the two extended lists and the context association; every other
  field has its default or a fresh value, whatever the relation holds: tension level 0,
  intensity 1, no lifespan, activation count 0, active, an empty history, no
  contribution to coherence, never activated, a fresh identifier, creation time and
  rights identifier, and the metadata the constructor derives from these.
\<close>

theorem transform_successor_fields:
  "source (fst (transform r nt ntg w)) = source r \<and>
   target (fst (transform r nt ntg w)) = py_or ntg (target r) \<and>
   rel_type (fst (transform r nt ntg w)) = py_or nt (rel_type r) \<and>
   meaning (fst (transform r nt ntg w)) =
     transformed_from @ rel_id r @ ascii '': '' @ meaning r \<and>
   certainty (fst (transform r nt ntg w)) = 0.8 * certainty r \<and>
   phi_meta (fst (transform r nt ntg w)) = phi_meta r @ [transformation_tag] \<and>
   blind_spots (fst (transform r nt ntg w)) = blind_spots r @ [loss_of_context] \<and>
   context_id (fst (transform r nt ntg w)) = context_id r \<and>
   tension_level (fst (transform r nt ntg w)) = 0.0 \<and>
   intensity (fst (transform r nt ntg w)) = 1.0 \<and>
   lifespan (fst (transform r nt ntg w)) = None \<and>
   activation_count (fst (transform r nt ntg w)) = 0 \<and>
   is_active (fst (transform r nt ntg w)) \<and>
   transformation_history (fst (transform r nt ntg w)) = [] \<and>
   coherence_contribution (fst (transform r nt ntg w)) = 0.0 \<and>
   last_activated (fst (transform r nt ntg w)) = None \<and>
   rel_id (fst (transform r nt ntg w)) = take 8 (uuid_source w (uuids_drawn w)) \<and>
   created (fst (transform r nt ntg w)) = clock w (clock_reads w) \<and>
   habeas_weight_id (fst (transform r nt ntg w)) = uuid_source w (uuids_drawn w + 2) \<and>
   fair_care_metadata (fst (transform r nt ntg w)) =
     [(ascii ''relation_id'', VStr (take 8 (uuid_source w (uuids_drawn w)))),
      (ascii ''type'', VStr (ascii ''OntologicalRelation'')),
      (ascii ''license'', VStr (ascii ''CC BY-NC-SA 4.0'')),
      (ascii ''created'', VStr (isoformat (clock w (clock_reads w)))),
      (ascii ''source'', VStr (source r)),
      (ascii ''target'', VStr (py_or ntg (target r))),
      (ascii ''operator'', VStr logos_system),
      (ascii ''community_standards'', str_list [ascii ''FAIR'', ascii ''CARE'', protocol_tag]),
      (ascii ''access_protocol'', VStr (ascii ''open'')),
      (ascii ''habeas_weight_id'', VStr (uuid_source w (uuids_drawn w + 2)))]"
  using add_2_eq_Suc' [of "uuids_drawn w"]
  by (simp add: transform_successor init_fair_care_metadata_def)

section \<open>Properties of semantic\_db/fair\_encoder.py\<close>

lemma relation_of_type_type: "rel_type (relation_of_type ty) = ty"
  by (simp add: relation_of_type_def relation_init_fields ascii_def init_fair_care_metadata_def)

lemma fold_insert_image: "fold (\<lambda>x kw. insert (f x) kw) xs A = f ` set xs \<union> A"
  by (induction xs arbitrary: A) auto

lemma add_entities_eq:
  "add_entities nodes A = (\<lambda>n. replace_char 32 (ascii ''-'') (py_lower n)) ` set nodes \<union> A"
  by (simp add: add_entities_def fold_insert_image)

lemma add_blind_spots_eq:
  "add_blind_spots spots A = (\<lambda>s. blind_spot_prefix @ s) ` set spots \<union> A"
  by (simp add: add_blind_spots_def fold_insert_image)

lemma add_relation_types_eq:
  "add_relation_types edges A =
     (\<lambda>rel. relation_prefix @ py_lower (rel_type rel)) `
       {rel. \<exists>s t. (s, t, Some rel) \<in> set edges} \<union> A"
proof (induction edges arbitrary: A)
  case Nil
  then show ?case by (simp add: add_relation_types_def)
next
  case (Cons e edges)
  obtain s t a where e: "e = (s, t, a)" by (cases e) auto
  have step: "add_relation_types (e # edges) A =
      add_relation_types edges
        (case a of None \<Rightarrow> A
         | Some rel \<Rightarrow> insert (relation_prefix @ py_lower (rel_type rel)) A)"
    by (simp add: add_relation_types_def e)
  show ?case
  proof (cases a)
    case None
    then show ?thesis using Cons[of A] step e by auto
  next
    case (Some rel)
    then show ?thesis
      using Cons[of "insert (relation_prefix @ py_lower (rel_type rel)) A"] step e by auto
  qed
qed

lemma add_relation_types_finite: "finite A \<Longrightarrow> finite (add_relation_types edges A)"
proof -
  assume A: "finite A"
  have "{rel. \<exists>s t. (s, t, Some rel) \<in> set edges} \<subseteq> (\<lambda>e. the (snd (snd e))) ` set edges"
    by force
  then have "finite {rel. \<exists>s t. (s, t, Some rel) \<in> set edges}"
    by (rule finite_subset) simp
  with A show ?thesis by (simp add: add_relation_types_eq)
qed

lemma finite_entity_keywords: "finite (entity_keywords c)"
  by (simp add: entity_keywords_def add_entities_eq)

lemma finite_keyword_set: "finite (keyword_set c)"
  by (simp add: keyword_set_def add_blind_spots_eq add_relation_types_finite add_entities_eq
        baseline_keywords_def)

lemma baseline_in_keyword_set: "baseline_keywords \<subseteq> keyword_set c"
  by (auto simp add: keyword_set_def add_blind_spots_eq add_entities_eq add_relation_types_eq)

text \<open>Membership in a prefix of a sorted list without repetition.\<close>

lemma take_sorted_distinct_mem:
  fixes k :: "'a::linorder"
  shows "sorted xs \<Longrightarrow> distinct xs \<Longrightarrow> k \<in> set xs \<Longrightarrow>
    (k \<in> set (take n xs)) = (card {x \<in> set xs. x < k} < n)"
proof (induction xs arbitrary: n)
  case Nil
  then show ?case by simp
next
  case (Cons a xs)
  show ?case
  proof (cases n)
    case 0
    then show ?thesis by simp
  next
    case (Suc m)
    show ?thesis
    proof (cases "k = a")
      case True
      have e: "{x \<in> set (a # xs). x < k} = {}"
        using Cons.prems(1) True by auto
      have "k \<in> set (take n (a # xs))"
        using True Suc by simp
      moreover have "card {x \<in> set (a # xs). x < k} < n"
        unfolding e using Suc by simp
      ultimately show ?thesis by simp
    next
      case False
      then have kin: "k \<in> set xs" using Cons.prems(3) by simp
      then have "a \<le> k" using Cons.prems(1) by simp
      then have ak: "a < k" using False by simp
      have "{x \<in> set (a # xs). x < k} = insert a {x \<in> set xs. x < k}"
        using ak by auto
      moreover have "a \<notin> {x \<in> set xs. x < k}"
        using Cons.prems(2) by simp
      ultimately have "card {x \<in> set (a # xs). x < k} = Suc (card {x \<in> set xs. x < k})"
        by simp
      moreover have "(k \<in> set (take m xs)) = (card {x \<in> set xs. x < k} < m)"
        using Cons.IH[of m] Cons.prems kin by simp
      ultimately show ?thesis using Suc False by simp
    qed
  qed
qed

lemma in_extract_keywords:
  "k \<in> keyword_set c \<Longrightarrow>
     (k \<in> set (extract_keywords c)) = (card {x \<in> keyword_set c. x < k} < 20)"
  using take_sorted_distinct_mem[of "sorted_list_of_set (keyword_set c)" k 20]
    finite_keyword_set[of c]
  by (simp add: extract_keywords_def)

lemma cycle_is_last:
  "kw_logos < kw_cycle" "ascii ''lambda-universe'' < kw_cycle" "ascii ''semanticdb'' < kw_cycle"
  "kw_cycle < relation_prefix @ x" "kw_cycle < blind_spot_prefix @ x"
  by (simp_all add: kw_logos_def kw_cycle_def ascii_def relation_prefix_def blind_spot_prefix_def)

lemma keyword_set_parts:
  "keyword_set c =
     (\<lambda>s. blind_spot_prefix @ s) ` set (map fst (ctx_blind_spots c)) \<union>
     ((\<lambda>rel. relation_prefix @ py_lower (rel_type rel)) `
        {rel. \<exists>s t. (s, t, Some rel) \<in> set (graph_edges c)} \<union>
      (entity_keywords c \<union> baseline_keywords))"
  by (simp add: keyword_set_def entity_keywords_def add_blind_spots_eq add_relation_types_eq
        add_entities_eq)

lemma below_cycle:
  "{x \<in> keyword_set c. x < kw_cycle} =
     {kw_logos, ascii ''lambda-universe'', ascii ''semanticdb''} \<union>
     {k \<in> entity_keywords c. k < kw_cycle \<and> k \<notin> baseline_keywords}"
proof -
  have a: "\<not> kw_cycle < relation_prefix @ x \<Longrightarrow> False" for x
    using cycle_is_last(4) by simp
  have r: "\<not> relation_prefix @ x < kw_cycle" "\<not> blind_spot_prefix @ x < kw_cycle" for x
    using cycle_is_last(4)[of x] cycle_is_last(5)[of x] by simp_all
  show ?thesis
    unfolding keyword_set_parts
    using r cycle_is_last(1,2,3)
    by (auto simp: baseline_keywords_def)
qed

lemma card_below_cycle:
  "card {x \<in> keyword_set c. x < kw_cycle} =
     3 + card {k \<in> entity_keywords c. k < kw_cycle \<and> k \<notin> baseline_keywords}"
proof -
  let ?B = "{kw_logos, ascii ''lambda-universe'', ascii ''semanticdb''}"
  let ?D = "{k \<in> entity_keywords c. k < kw_cycle \<and> k \<notin> baseline_keywords}"
  have fD: "finite ?D" using finite_entity_keywords[of c] by simp
  have dj: "?B \<inter> ?D = {}" by (auto simp: baseline_keywords_def)
  have cB: "card ?B = 3" by (simp add: kw_logos_def ascii_def)
  have fB: "finite ?B" by simp
  have "card {x \<in> keyword_set c. x < kw_cycle} = card (?B \<union> ?D)"
    by (simp only: below_cycle)
  also have "\<dots> = card ?B + card ?D"
    by (rule card_Un_disjoint[OF fB fD dj])
  also have "\<dots> = 3 + card ?D"
    by (simp only: cB)
  finally show ?thesis .
qed

lemma baseline_kept_iff:
  "(baseline_keywords \<subseteq> set (extract_keywords c)) =
   (card {k \<in> entity_keywords c. k < kw_cycle \<and> k \<notin> baseline_keywords} \<le> 16)"
proof -
  have cyc: "kw_cycle \<in> keyword_set c"
    using baseline_in_keyword_set[of c] by (simp add: baseline_keywords_def)
  have key: "(kw_cycle \<in> set (extract_keywords c)) =
      (card {k \<in> entity_keywords c. k < kw_cycle \<and> k \<notin> baseline_keywords} \<le> 16)"
    using in_extract_keywords[OF cyc] by (simp add: card_below_cycle) linarith
  have "b \<in> set (extract_keywords c)"
    if b: "b \<in> baseline_keywords" and k: "kw_cycle \<in> set (extract_keywords c)" for b
  proof -
    have bk: "b \<in> keyword_set c" using b baseline_in_keyword_set[of c] by auto
    have "b \<le> kw_cycle"
      using b cycle_is_last(1,2,3) by (auto simp: baseline_keywords_def)
    then have "{x \<in> keyword_set c. x < b} \<subseteq> {x \<in> keyword_set c. x < kw_cycle}"
      by auto
    then have "card {x \<in> keyword_set c. x < b} \<le> card {x \<in> keyword_set c. x < kw_cycle}"
      using finite_keyword_set[of c] by (simp add: card_mono)
    moreover have "card {x \<in> keyword_set c. x < kw_cycle} < 20"
      using k in_extract_keywords[OF cyc] by simp
    ultimately show ?thesis using in_extract_keywords[OF bk] by simp
  qed
  moreover have "kw_cycle \<in> baseline_keywords" by (simp add: baseline_keywords_def)
  ultimately have "(baseline_keywords \<subseteq> set (extract_keywords c)) =
      (kw_cycle \<in> set (extract_keywords c))"
    by blast
  with key show ?thesis by simp
qed

lemma entity_keywords22:
  "entity_keywords context22 = {ascii ''logos'', ascii ''living-ethos''}"
  by (simp add: entity_keywords_def context22_def add_entities_def replace_char_def ascii_def
        lower_eval insert_commute)

lemma keyword_set22: "keyword_set context22 = set keywords22"
  by (simp add: keyword_set_def context22_def add_blind_spots_def add_entities_def
        add_relation_types_def baseline_keywords_def relation_of_type_type
        sym_Alpha_def sym_Lambda_def sym_Sigma_def sym_Omega_def sym_Nabla_def sym_Phi_def
        replace_char_def ascii_def blind_spot_prefix_def relation_prefix_def kw_logos_def
        kw_cycle_def keywords22_def lower_eval insert_commute)

lemma keywords22_distinct: "distinct keywords22"
  by (simp add: keywords22_def)

lemma keyword_set17: "keyword_set context17 = set keywords17"
  by (simp add: keyword_set_def context17_def add_blind_spots_def add_entities_def
        add_relation_types_def baseline_keywords_def upt_rec
        replace_char_def ascii_def blind_spot_prefix_def kw_logos_def kw_cycle_def
        keywords17_def lower_eval insert_commute)

lemma keywords17_sorted: "sorted keywords17 \<and> distinct keywords17"
  by (simp add: keywords17_def)

lemma extract_keywords17: "extract_keywords context17 = take 20 keywords17"
  using keywords17_sorted
  by (simp add: extract_keywords_def keyword_set17 sorted_list_of_set.idem_if_sorted_distinct)

text \<open>
  C2, as the code has it: for every context, whatever the number of its relation types
  and blind spots, the list \<open>_extract_keywords\<close> returns is alphabetically sorted and
  has at most 20 entries; it contains all four baseline keywords exactly when at most 16
  entity keywords other than the baseline keywords sort before the baseline keyword
  "ontological-cycle", so whenever the context gives at most 16 entity keywords other
  than the baseline keywords.
\<close>

theorem extract_keywords_sorted_bounded:
  "sorted (extract_keywords c) \<and> length (extract_keywords c) \<le> 20 \<and>
   (baseline_keywords \<subseteq> set (extract_keywords c)) =
     (card {k \<in> entity_keywords c. k < kw_cycle \<and> k \<notin> baseline_keywords} \<le> 16) \<and>
   (card (entity_keywords c - baseline_keywords) \<le> 16 \<longrightarrow>
      baseline_keywords \<subseteq> set (extract_keywords c))"
proof -
  have s: "sorted (extract_keywords c)"
    by (simp add: extract_keywords_def)
  have l: "length (extract_keywords c) \<le> 20"
    by (simp add: extract_keywords_def)
  have "baseline_keywords \<subseteq> set (extract_keywords c)"
    if "card (entity_keywords c - baseline_keywords) \<le> 16"
  proof -
    have "{k \<in> entity_keywords c. k < kw_cycle \<and> k \<notin> baseline_keywords}
            \<subseteq> entity_keywords c - baseline_keywords"
      by auto
    then have "card {k \<in> entity_keywords c. k < kw_cycle \<and> k \<notin> baseline_keywords}
            \<le> card (entity_keywords c - baseline_keywords)"
      using finite_entity_keywords[of c] by (simp add: card_mono)
    with that show ?thesis by (simp add: baseline_kept_iff)
  qed
  with s l baseline_kept_iff[of c] show ?thesis by blast
qed

text \<open>
  The context with two entities, six relation types and ten blind spots gives 22
  keywords; the cut to 20 keeps all four baseline keywords.
\<close>

theorem extract_keywords_sorted_bounded_witness:
  "card (entity_keywords context22 - baseline_keywords) \<le> 16 \<and>
   card (keyword_set context22) = 22 \<and>
   baseline_keywords \<subseteq> set (extract_keywords context22) \<and>
   card {k \<in> entity_keywords context22. k < kw_cycle \<and> k \<notin> baseline_keywords} \<le> 16 \<and>
   sorted (extract_keywords context22) \<and> length (extract_keywords context22) \<le> 20"
proof -
  have "card (entity_keywords context22 - baseline_keywords) \<le> card (entity_keywords context22)"
    using finite_entity_keywords[of context22] by (simp add: card_mono)
  also have "\<dots> \<le> 2"
    unfolding entity_keywords22 by (simp add: card_insert_if)
  finally have h: "card (entity_keywords context22 - baseline_keywords) \<le> 16" by simp
  have c: "card (keyword_set context22) = 22"
    unfolding keyword_set22 using keywords22_distinct
    by (simp add: distinct_card) (simp add: keywords22_def)
  show ?thesis
    using extract_keywords_sorted_bounded[of context22] h c by blast
qed

text \<open>
  With seventeen entities \<open>a\<close>, ..., \<open>q\<close> the first twenty keywords end with
  \<open>semanticdb\<close>: the baseline keyword "ontological-cycle" is cut off, so the list does
  not contain all four baseline keywords.
\<close>

theorem extract_keywords_drops_baseline:
  "\<not> (baseline_keywords \<subseteq> set (extract_keywords context17) \<and>
      sorted (extract_keywords context17) \<and> length (extract_keywords context17) \<le> 20)"
proof -
  have "kw_cycle \<notin> set (extract_keywords context17)"
    by (simp add: extract_keywords17 keywords17_def kw_cycle_def)
  moreover have "kw_cycle \<in> baseline_keywords"
    by (simp add: baseline_keywords_def)
  ultimately show ?thesis by blast
qed

section \<open>Properties of semantic\_db/serializer.py\<close>

lemma load_cycle_of_data:
  "load_name (to_yaml_scope cd) (ascii ''cycle_of_data'') =
     Inl (NameError (ascii ''cycle_of_data''))"
  by (simp add: load_name_def to_yaml_scope_def module_globals_def ascii_def)

lemma cycle_summary_never_returns: "cycle_summary cd \<noteq> Inr s"
  by (simp add: cycle_summary_def raising_def load_cycle_of_data split: sum.splits)

lemma to_yaml_never_returns: "to_yaml yaml_dump py_str context cd w \<noteq> Inr text"
  using cycle_summary_never_returns[of cd]
  by (simp add: to_yaml_def Let_def split: prod.splits sum.splits)

text \<open>
  C1: \<open>to_yaml\<close> is to return a report whose section \<open>cycle_summary\<close> has the count of
  successful evaluations of the cycle summary. On a cycle summary with all seven keys
  the code raises \<open>NameError\<close> for the name \<open>cycle_of_data\<close> instead; it returns a
  report on no input.
\<close>

theorem to_yaml_raises_NameError:
  "to_yaml yaml_dump py_str small_context sample_cycle_data sample_world =
     Inl (NameError (ascii ''cycle_of_data''))"
proof -
  have "cycle_summary sample_cycle_data = Inl (NameError (ascii ''cycle_of_data''))"
    by (simp add: cycle_summary_def raising_def load_cycle_of_data dict_getitem_def
          sample_cycle_data_def)
  then show ?thesis
    by (simp add: to_yaml_def Let_def split: prod.splits)
qed


end
